theory Spec2Isabelle
  imports Main "HOL-Library.Word" "HOL-Library.AList"
begin

section \<open>Data model\<close>

text \<open>
  The visor (\<^verbatim>\<open>package visor\<close> in \<^verbatim>\<open>src/src/wallet/readable.go\<close>) orchestrates the
  blockchain, the unconfirmed transaction pool and the history index inside one database
  transaction. The types of the \<^verbatim>\<open>cipher\<close> and \<^verbatim>\<open>coin\<close> packages are not part of
  the sources; they are declared here with the fields the visor reads, after the data model
  of the specification. A \<^verbatim>\<open>uint64\<close> is a \<open>64 word\<close>.
\<close>

type_synonym SHA256 = "256 word"
type_synonym PubKey = "264 word"
type_synonym Sig = "520 word"

record Address =
  Version :: "8 word"
  Key :: "160 word"

record TransactionOutput =
  Out_Address :: Address
  Out_Coins :: "64 word"
  Out_Hours :: "64 word"

record Transaction =
  In :: "SHA256 list"
  Out :: "TransactionOutput list"

record BlockHeader =
  BkSeq :: "64 word"
  Time :: "64 word"
  PrevHash :: SHA256
  BodyHash :: SHA256

record Block =
  Block_Head :: BlockHeader
  Block_Transactions :: "Transaction list"

record SignedBlock =
  SignedBlock_Block :: Block
  SignedBlock_Sig :: Sig

record UxHead =
  UxHead_Time :: "64 word"
  UxHead_BkSeq :: "64 word"

record UxBody =
  SrcTransaction :: SHA256
  UxBody_Address :: Address
  UxBody_Coins :: "64 word"
  UxBody_Hours :: "64 word"

record UxOut =
  UxOut_Head :: UxHead
  UxOut_Body :: UxBody

type_synonym UxArray = "UxOut list"

text \<open>\<^verbatim>\<open>coin.AddressUxOuts\<close> is \<^verbatim>\<open>map[cipher.Address]UxArray\<close>.\<close>

type_synonym AddressUxOuts = "Address \<rightharpoonup> UxArray"

record UnconfirmedTransaction =
  UT_Transaction :: Transaction
  Received :: int
  Checked :: int
  Announced :: int
  IsValid :: "8 word"

record Balance =
  Coins :: "64 word"
  Hours :: "64 word"

record BalancePair =
  Confirmed :: Balance
  Predicted :: Balance

text \<open>
  \<^verbatim>\<open>params.VerifyTxn\<close>: the per-context policy (burn factor, maximum transaction size,
  maximum decimal precision). \<^verbatim>\<open>params.Distribution\<close> is passed through unread.
\<close>

record VerifyTxn =
  BurnFactor :: "32 word"
  MaxTransactionSize :: "32 word"
  MaxDropletPrecision :: "8 word"

type_synonym Distribution = nat

datatype TxnSignedFlag = TxnSigned | TxnUnsigned

text \<open>
  Errors are values. The constructors name the errors the visor creates itself
  (\<^verbatim>\<open>errors.New\<close>, \<^verbatim>\<open>fmt.Errorf\<close>) and the error types it switches on;
  \<open>Errorf p e\<close> is \<^verbatim>\<open>fmt.Errorf(p + ": %v", e)\<close>, and \<open>ErrOther\<close> stands for any
  failure of a collaborator (a storage failure, say).
\<close>

datatype error =
    ErrNoTransactions
  | ErrNoTransactionsAfterFiltering
  | ErrInvalidSkycoinAddress
  | ErrDuplicateAddresses
  | ErrNoBlockInDepth "64 word"
  | ErrUint64AddOverflow
  | ErrUxArrayCoinsOverflow
  | ErrUxArrayCoinHoursOverflow
  | ErrAddEarnedCoinHoursAdditionOverflow
  | ErrTxnViolatesHardConstraint string
  | ErrTxnViolatesSoftConstraint string
  | ErrTxnViolatesUserConstraint string
  | ErrUnspentNotExist SHA256
  | ErrSignatureNotValid
  | ErrOther string
  | Errorf string error

section \<open>Collaborators\<close>

text \<open>
  Pure functions of the \<^verbatim>\<open>cipher\<close>, \<^verbatim>\<open>coin\<close> and \<^verbatim>\<open>transaction\<close> packages that
  the visor calls and whose code is not part of the sources. They are parameters of the
  model: every theorem below holds for each choice of them.
\<close>

record Lib =
  TxnHash :: "Transaction \<Rightarrow> SHA256"
  UxHash :: "UxOut \<Rightarrow> SHA256"
  UxOut_CoinHours :: "UxOut \<Rightarrow> 64 word \<Rightarrow> error + 64 word"
  CreateUnspent :: "BlockHeader \<Rightarrow> Transaction \<Rightarrow> nat \<Rightarrow> error + UxOut"
  VerifySignature :: "SignedBlock \<Rightarrow> PubKey \<Rightarrow> error option"
  VerifySingleTxnUserConstraints :: "Transaction \<Rightarrow> error option"
  SortTransactions ::
    "Transaction list \<Rightarrow> (Transaction \<Rightarrow> error + 64 word) \<Rightarrow> error + Transaction list"
  TxnSize :: "Transaction \<Rightarrow> error + 32 word"
  MaxBlockTransactions :: nat
  UserVerifyTxn :: VerifyTxn
  Now :: int

text \<open>
  The interfaces \<^verbatim>\<open>Blockchainer\<close>, \<^verbatim>\<open>UnconfirmedTransactionPooler\<close> and
  \<^verbatim>\<open>Historyer\<close> are records of functions over the state \<open>'s\<close> that a database
  transaction \<^verbatim>\<open>tx\<close> reads and writes. A reading method returns \<open>error + result\<close>; a
  writing method returns its error (if any) and the state it leaves behind.
\<close>

record 's UnspentPooler =
  Unspent_Get :: "'s \<Rightarrow> SHA256 \<Rightarrow> error + UxOut option"
  GetUnspentsOfAddrs :: "'s \<Rightarrow> Address list \<Rightarrow> error + AddressUxOuts"

record 's Blockchainer =
  Unspent :: "'s UnspentPooler"
  Head :: "'s \<Rightarrow> error + SignedBlock"
  HeadSeq :: "'s \<Rightarrow> error + (64 word \<times> bool)"
  GetSignedBlockBySeq :: "'s \<Rightarrow> 64 word \<Rightarrow> error + SignedBlock option"
  VerifySingleTxnSoftHardConstraints ::
    "'s \<Rightarrow> Transaction \<Rightarrow> Distribution \<Rightarrow> VerifyTxn \<Rightarrow> TxnSignedFlag
      \<Rightarrow> error + (SignedBlock \<times> UxArray)"
  TransactionFee :: "'s \<Rightarrow> 64 word \<Rightarrow> Transaction \<Rightarrow> error + 64 word"
  NewBlock :: "'s \<Rightarrow> Transaction list \<Rightarrow> 64 word \<Rightarrow> error + Block"
  ExecuteBlock :: "'s \<Rightarrow> SignedBlock \<Rightarrow> error option \<times> 's"

record 's UnconfirmedTransactionPooler =
  AllRawTransactions :: "'s \<Rightarrow> error + Transaction list"
  ForEach :: "'s \<Rightarrow> error + (SHA256 \<times> UnconfirmedTransaction) list"
  InjectTransaction ::
    "'s \<Rightarrow> 's Blockchainer \<Rightarrow> Transaction \<Rightarrow> Distribution \<Rightarrow> VerifyTxn
      \<Rightarrow> (bool \<times> error option \<times> error option) \<times> 's"
  RemoveTransactions :: "'s \<Rightarrow> SHA256 list \<Rightarrow> error option \<times> 's"

record 's Historyer =
  NeedsReset :: "'s \<Rightarrow> error + bool"
  Erase :: "'s \<Rightarrow> error option \<times> 's"
  ParsedBlockSeq :: "'s \<Rightarrow> error + (64 word \<times> bool)"
  ParseBlock :: "'s \<Rightarrow> Block \<Rightarrow> error option \<times> 's"
  AddressSeen :: "'s \<Rightarrow> Address \<Rightarrow> error + bool"

record Config =
  IsBlockPublisher :: bool
  BlockchainPubkey :: PubKey
  Config_Distribution :: Distribution
  UnconfirmedVerifyTxn :: VerifyTxn
  CreateBlockVerifyTxn :: VerifyTxn
  MaxBlockTransactionsSize :: "32 word"

record 's Visor =
  Visor_Config :: Config
  unconfirmed :: "'s UnconfirmedTransactionPooler"
  blockchain :: "'s Blockchainer"
  history :: "'s Historyer"

section \<open>Arithmetic and output arrays of the coin package\<close>

text \<open>
  Modelled from the spec: \<^verbatim>\<open>mathutil.AddUint64\<close>, whose code is missing from the sources.
  The specification asks for coin and coin-hour totals that are
  "addition-overflow-checked": the sum of two \<^verbatim>\<open>uint64\<close>, or an error when it wraps.
\<close>

definition AddUint64 :: "64 word \<Rightarrow> 64 word \<Rightarrow> error + 64 word" where
  "AddUint64 a b = (let c = a + b in if c < a \<or> c < b then Inl ErrUint64AddOverflow else Inr c)"

text \<open>
  Modelled from the spec: \<^verbatim>\<open>coin.UxArray.Coins\<close>, missing from the sources: the
  overflow-checked total of the coins of an output array.
\<close>

fun Coins_loop :: "64 word \<Rightarrow> UxArray \<Rightarrow> error + 64 word" where
  "Coins_loop coins [] = Inr coins"
| "Coins_loop coins (ux # uxs) =
     (case AddUint64 coins (UxBody_Coins (UxOut_Body ux)) of
        Inl e \<Rightarrow> Inl ErrUxArrayCoinsOverflow
      | Inr c \<Rightarrow> Coins_loop c uxs)"

definition UxArray_Coins :: "UxArray \<Rightarrow> error + 64 word" where
  "UxArray_Coins ua = Coins_loop 0 ua"

text \<open>
  Modelled from the spec: \<^verbatim>\<open>coin.UxArray.CoinHours\<close>, missing from the sources: the
  overflow-checked total of the coin-hours of each output at the head time. The
  coin-hours of one output (\<^verbatim>\<open>coin.UxOut.CoinHours\<close>, the accrual rule) are the
  parameter \<open>UxOut_CoinHours\<close>; its failure is passed on unchanged.
\<close>

fun CoinHours_loop :: "Lib \<Rightarrow> 64 word \<Rightarrow> 64 word \<Rightarrow> UxArray \<Rightarrow> error + 64 word" where
  "CoinHours_loop lib headTime hours [] = Inr hours"
| "CoinHours_loop lib headTime hours (ux # uxs) =
     (case UxOut_CoinHours lib ux headTime of
        Inl e \<Rightarrow> Inl e
      | Inr uxHours \<Rightarrow>
          (case AddUint64 hours uxHours of
             Inl e \<Rightarrow> Inl ErrUxArrayCoinHoursOverflow
           | Inr h \<Rightarrow> CoinHours_loop lib headTime h uxs))"

definition UxArray_CoinHours :: "Lib \<Rightarrow> UxArray \<Rightarrow> 64 word \<Rightarrow> error + 64 word" where
  "UxArray_CoinHours lib ua headTime = CoinHours_loop lib headTime 0 ua"

text \<open>
  Modelled from the spec: \<^verbatim>\<open>coin.UxArray.Sub\<close> and \<^verbatim>\<open>coin.UxArray.Add\<close>, missing
  from the sources ("predicted = confirmed minus unconfirmed-outgoing plus
  unconfirmed-incoming"). An output is identified by its hash: \<open>Sub\<close> keeps the outputs
  whose hash is not among the others', \<open>Add\<close> appends the others whose hash is not there yet.
\<close>

definition UxArray_Sub :: "Lib \<Rightarrow> UxArray \<Rightarrow> UxArray \<Rightarrow> UxArray" where
  "UxArray_Sub lib ua other = filter (\<lambda>ux. UxHash lib ux \<notin> set (map (UxHash lib) other)) ua"

fun Add_loop :: "Lib \<Rightarrow> UxArray \<Rightarrow> SHA256 list \<Rightarrow> UxArray \<Rightarrow> UxArray" where
  "Add_loop lib ua m [] = ua"
| "Add_loop lib ua m (ux # other) =
     (if UxHash lib ux \<in> set m then Add_loop lib ua m other
      else Add_loop lib (ua @ [ux]) (UxHash lib ux # m) other)"

definition UxArray_Add :: "Lib \<Rightarrow> UxArray \<Rightarrow> UxArray \<Rightarrow> UxArray" where
  "UxArray_Add lib ua other = Add_loop lib ua (map (UxHash lib) ua) other"

text \<open>Reading a Go map of slices: a missing key reads as the nil (empty) slice.\<close>

definition lookupUxs :: "AddressUxOuts \<Rightarrow> Address \<Rightarrow> UxArray" where
  "lookupUxs m a = (case m a of None \<Rightarrow> [] | Some uxs \<Rightarrow> uxs)"

text \<open>\<^verbatim>\<open>m[a] = append(m[a], ux)\<close>\<close>

definition appendUx :: "AddressUxOuts \<Rightarrow> Address \<Rightarrow> UxOut \<Rightarrow> AddressUxOuts" where
  "appendUx m a ux = m(a \<mapsto> lookupUxs m a @ [ux])"

text \<open>
  Modelled from the spec: \<^verbatim>\<open>txnOutputsForAddrs\<close> of package visor, missing from the
  sources: the outputs that the pool's transactions would create for the given addresses
  ("outputs that would be created if every pooled transaction confirmed"), grouped by
  address. With no transaction or no address the result is the nil map.
\<close>

fun outputsOfTxn ::
  "Lib \<Rightarrow> BlockHeader \<Rightarrow> Address list \<Rightarrow> Transaction \<Rightarrow> nat \<Rightarrow> TransactionOutput list
    \<Rightarrow> AddressUxOuts \<Rightarrow> error + AddressUxOuts" where
  "outputsOfTxn lib bh addrs txn i [] auxs = Inr auxs"
| "outputsOfTxn lib bh addrs txn i (out # outs) auxs =
     (if Out_Address out \<in> set addrs then
        (case CreateUnspent lib bh txn i of
           Inl e \<Rightarrow> Inl e
         | Inr uxout \<Rightarrow>
             outputsOfTxn lib bh addrs txn (Suc i) outs (appendUx auxs (Out_Address out) uxout))
      else outputsOfTxn lib bh addrs txn (Suc i) outs auxs)"

fun outputsOfTxns ::
  "Lib \<Rightarrow> BlockHeader \<Rightarrow> Address list \<Rightarrow> Transaction list \<Rightarrow> AddressUxOuts
    \<Rightarrow> error + AddressUxOuts" where
  "outputsOfTxns lib bh addrs [] auxs = Inr auxs"
| "outputsOfTxns lib bh addrs (txn # txns) auxs =
     (case outputsOfTxn lib bh addrs txn 0 (Out txn) auxs of
        Inl e \<Rightarrow> Inl e
      | Inr auxs' \<Rightarrow> outputsOfTxns lib bh addrs txns auxs')"

definition txnOutputsForAddrs ::
  "Lib \<Rightarrow> BlockHeader \<Rightarrow> Address list \<Rightarrow> Transaction list \<Rightarrow> error + AddressUxOuts" where
  "txnOutputsForAddrs lib bh addrs txns =
     (if txns = [] \<or> addrs = [] then Inr Map.empty
      else outputsOfTxns lib bh addrs txns Map.empty)"

text \<open>
  Modelled from the spec: \<^verbatim>\<open>GetArray\<close> of the unspent-output index, missing from the
  sources: "get_array(hashes) -> (results, fails with UnspentNotExist{id} if any hash
  missing)", over the point lookup \<open>Unspent_Get\<close>.
\<close>

fun GetArray :: "'s UnspentPooler \<Rightarrow> 's \<Rightarrow> SHA256 list \<Rightarrow> error + UxArray" where
  "GetArray up tx [] = Inr []"
| "GetArray up tx (h # hashes) =
     (case Unspent_Get up tx h of
        Inl e \<Rightarrow> Inl e
      | Inr None \<Rightarrow> Inl (ErrUnspentNotExist h)
      | Inr (Some ux) \<Rightarrow>
          (case GetArray up tx hashes of Inl e \<Rightarrow> Inl e | Inr uxa \<Rightarrow> Inr (ux # uxa)))"

section \<open>Balances: \<^verbatim>\<open>Visor.GetBalanceOfAddresses\<close>\<close>

text \<open>
  The body of the \<^verbatim>\<open>db.View\<close> closure: it reads the head block, the pool's
  transactions, the outputs they would create for the addresses, the unspent outputs they
  spend and the unspent outputs the addresses own. Any failure ends the call.
\<close>

definition balanceView ::
  "Lib \<Rightarrow> 's Visor \<Rightarrow> Address list \<Rightarrow> 's
    \<Rightarrow> error + (SignedBlock \<times> AddressUxOuts \<times> UxArray \<times> AddressUxOuts)" where
  "balanceView lib vs addrs tx =
     (case Head (blockchain vs) tx of
        Inl e \<Rightarrow> Inl e
      | Inr head \<Rightarrow>
     (case AllRawTransactions (unconfirmed vs) tx of
        Inl e \<Rightarrow> Inl e
      | Inr txns \<Rightarrow>
     (case txnOutputsForAddrs lib (Block_Head (SignedBlock_Block head)) addrs txns of
        Inl e \<Rightarrow> Inl e
      | Inr recvUxs \<Rightarrow>
     (case GetArray (Unspent (blockchain vs)) tx (concat (map In txns)) of
        Inl e \<Rightarrow> Inl (Errorf ''GetArray failed when checking addresses balance'' e)
      | Inr uxa \<Rightarrow>
     (case GetUnspentsOfAddrs (Unspent (blockchain vs)) tx addrs of
        Inl e \<Rightarrow> Inl (Errorf ''GetUnspentsOfAddrs failed when checking addresses balance'' e)
      | Inr auxs \<Rightarrow> Inr (head, recvUxs, uxa, auxs))))))"

text \<open>
  The unconfirmed inputs that belong to the queried addresses:
  \<^verbatim>\<open>for _, ux := range uxa { if _, ok := addrm[ux.Body.Address]; ok { ... append ... } }\<close>.
\<close>

fun buildSpendUxs :: "Address list \<Rightarrow> UxArray \<Rightarrow> AddressUxOuts \<Rightarrow> AddressUxOuts" where
  "buildSpendUxs addrs [] spendUxs = spendUxs"
| "buildSpendUxs addrs (ux # uxa) spendUxs =
     (if UxBody_Address (UxOut_Body ux) \<in> set addrs
      then buildSpendUxs addrs uxa (appendUx spendUxs (UxBody_Address (UxOut_Body ux)) ux)
      else buildSpendUxs addrs uxa spendUxs)"

text \<open>
  One round of the loop over the addresses, for an address that owns unspent outputs
  \<open>uxs\<close>. The source binds \<^verbatim>\<open>coinHours\<close> and \<^verbatim>\<open>pcoinHours\<close> to the first result of
  \<^verbatim>\<open>CoinHours\<close>, which is 0 beside an error. On
  \<^verbatim>\<open>coin.ErrAddEarnedCoinHoursAdditionOverflow\<close> both switches assign
  \<^verbatim>\<open>coinHours = 0\<close> and go on; any other error ends the call.
\<close>

definition balanceOf ::
  "Lib \<Rightarrow> 64 word \<Rightarrow> UxArray \<Rightarrow> UxArray \<Rightarrow> UxArray \<Rightarrow> error + BalancePair" where
  "balanceOf lib headTime uxs outUxs inUxs =
     (let predictedUxs = UxArray_Add lib (UxArray_Sub lib uxs outUxs) inUxs in
      case UxArray_Coins uxs of
        Inl e \<Rightarrow> Inl (Errorf ''uxs.Coins failed'' e)
      | Inr coins \<Rightarrow>
     (case (case UxArray_CoinHours lib uxs headTime of
              Inl e \<Rightarrow>
                if e = ErrAddEarnedCoinHoursAdditionOverflow then Inr 0
                else Inl (Errorf ''uxs.CoinHours failed'' e)
            | Inr h \<Rightarrow> Inr h) of
        Inl e \<Rightarrow> Inl e
      | Inr coinHours \<Rightarrow>
     (case UxArray_Coins predictedUxs of
        Inl e \<Rightarrow> Inl (Errorf ''predictedUxs.Coins failed'' e)
      | Inr pcoins \<Rightarrow>
     (case (case UxArray_CoinHours lib predictedUxs headTime of
              Inl e \<Rightarrow>
                if e = ErrAddEarnedCoinHoursAdditionOverflow then Inr (0, 0)
                else Inl (Errorf ''predictedUxs.CoinHours failed'' e)
            | Inr ph \<Rightarrow> Inr (coinHours, ph)) of
        Inl e \<Rightarrow> Inl e
      | Inr (coinHours', pcoinHours) \<Rightarrow>
          Inr \<lparr>Confirmed = \<lparr>Coins = coins, Hours = coinHours'\<rparr>,
               Predicted = \<lparr>Coins = pcoins, Hours = pcoinHours\<rparr>\<rparr>))))"

text \<open>
  The loop \<^verbatim>\<open>for _, addr := range addrs\<close>: an address with no entry in \<^verbatim>\<open>auxs\<close>
  gets the zero \<^verbatim>\<open>wallet.BalancePair{}\<close>.
\<close>

definition zeroBalancePair :: BalancePair where
  "zeroBalancePair =
     \<lparr>Confirmed = \<lparr>Coins = 0, Hours = 0\<rparr>, Predicted = \<lparr>Coins = 0, Hours = 0\<rparr>\<rparr>"

fun balanceLoop ::
  "Lib \<Rightarrow> 64 word \<Rightarrow> AddressUxOuts \<Rightarrow> AddressUxOuts \<Rightarrow> AddressUxOuts \<Rightarrow> Address list
    \<Rightarrow> BalancePair list \<Rightarrow> error + BalancePair list" where
  "balanceLoop lib headTime auxs spendUxs recvUxs [] bps = Inr bps"
| "balanceLoop lib headTime auxs spendUxs recvUxs (addr # addrs) bps =
     (case auxs addr of
        None \<Rightarrow> balanceLoop lib headTime auxs spendUxs recvUxs addrs (bps @ [zeroBalancePair])
      | Some uxs \<Rightarrow>
          (case balanceOf lib headTime uxs (lookupUxs spendUxs addr) (lookupUxs recvUxs addr) of
             Inl e \<Rightarrow> Inl e
           | Inr bp \<Rightarrow> balanceLoop lib headTime auxs spendUxs recvUxs addrs (bps @ [bp])))"

definition GetBalanceOfAddresses ::
  "Lib \<Rightarrow> 's Visor \<Rightarrow> Address list \<Rightarrow> 's \<Rightarrow> error + BalancePair list" where
  "GetBalanceOfAddresses lib vs addrs db =
     (if addrs = [] then Inr []
      else
        (case balanceView lib vs addrs db of
           Inl e \<Rightarrow> Inl e
         | Inr (head, recvUxs, uxa, auxs) \<Rightarrow>
             balanceLoop lib (Time (Block_Head (SignedBlock_Block head))) auxs
               (buildSpendUxs addrs uxa Map.empty) recvUxs addrs []))"

section \<open>Database transactions\<close>

text \<open>
  Modelled from the spec: \<^verbatim>\<open>dbutil.DB.Update\<close>, missing from the sources. A closure
  runs in one read-write transaction; the variables it assigns are its result \<open>a\<close>. When
  it returns an error "failure must roll back every mutation performed so far", so the
  database is the one before the call; otherwise the writes are committed.
\<close>

definition dbUpdate :: "('s \<Rightarrow> 'a \<times> error option \<times> 's) \<Rightarrow> 's \<Rightarrow> 'a \<times> error option \<times> 's" where
  "dbUpdate f db =
     (case f db of
        (a, None, tx) \<Rightarrow> (a, None, tx)
      | (a, Some e, tx) \<Rightarrow> (a, Some e, db))"

section \<open>Executing blocks\<close>

text \<open>\<^verbatim>\<open>Visor.executeSignedBlockUnsafe\<close>: execute, remove from the pool, parse into history.\<close>

definition executeSignedBlockUnsafe ::
  "Lib \<Rightarrow> 's Visor \<Rightarrow> 's \<Rightarrow> SignedBlock \<Rightarrow> error option \<times> 's" where
  "executeSignedBlockUnsafe lib vs tx b =
     (case ExecuteBlock (blockchain vs) tx b of
        (Some e, tx1) \<Rightarrow> (Some e, tx1)
      | (None, tx1) \<Rightarrow>
     (case RemoveTransactions (unconfirmed vs) tx1
             (map (TxnHash lib) (Block_Transactions (SignedBlock_Block b))) of
        (Some e, tx2) \<Rightarrow> (Some e, tx2)
      | (None, tx2) \<Rightarrow> ParseBlock (history vs) tx2 (SignedBlock_Block b)))"

text \<open>\<^verbatim>\<open>Visor.executeSignedBlock\<close>: the signature is verified first.\<close>

definition executeSignedBlock ::
  "Lib \<Rightarrow> 's Visor \<Rightarrow> 's \<Rightarrow> SignedBlock \<Rightarrow> error option \<times> 's" where
  "executeSignedBlock lib vs tx b =
     (case VerifySignature lib b (BlockchainPubkey (Visor_Config vs)) of
        Some e \<Rightarrow> (Some e, tx)
      | None \<Rightarrow> executeSignedBlockUnsafe lib vs tx b)"

text \<open>\<^verbatim>\<open>Visor.ExecuteSignedBlock\<close> and \<^verbatim>\<open>Visor.ExecuteSignedBlockUnsafe\<close>.\<close>

definition ExecuteSignedBlock :: "Lib \<Rightarrow> 's Visor \<Rightarrow> SignedBlock \<Rightarrow> 's \<Rightarrow> error option \<times> 's" where
  "ExecuteSignedBlock lib vs b db =
     snd (dbUpdate (\<lambda>tx. case executeSignedBlock lib vs tx b of (err, tx') \<Rightarrow> ((), err, tx')) db)"

definition ExecuteSignedBlockUnsafe ::
  "Lib \<Rightarrow> 's Visor \<Rightarrow> SignedBlock \<Rightarrow> 's \<Rightarrow> error option \<times> 's" where
  "ExecuteSignedBlockUnsafe lib vs b db =
     snd (dbUpdate (\<lambda>tx. case executeSignedBlockUnsafe lib vs tx b of (err, tx') \<Rightarrow> ((), err, tx')) db)"

section \<open>Injecting transactions\<close>

text \<open>
  \<^verbatim>\<open>Visor.InjectForeignTransaction\<close>: the pool's \<^verbatim>\<open>InjectTransaction\<close> under the
  policy \<^verbatim>\<open>Config.UnconfirmedVerifyTxn\<close>, in one update. The result is the Go triple
  (known, softErr, err).
\<close>

definition InjectForeignTransaction ::
  "'s Visor \<Rightarrow> Transaction \<Rightarrow> 's \<Rightarrow> (bool \<times> error option \<times> error option) \<times> 's" where
  "InjectForeignTransaction vs txn db =
     (case dbUpdate
             (\<lambda>tx. case InjectTransaction (unconfirmed vs) tx (blockchain vs) txn
                          (Config_Distribution (Visor_Config vs))
                          (UnconfirmedVerifyTxn (Visor_Config vs)) of
                     ((known, softErr, err), tx') \<Rightarrow> ((known, softErr), err, tx')) db of
        (_, Some e, db') \<Rightarrow> ((False, None, Some e), db')
      | ((known, softErr), None, db') \<Rightarrow> ((known, softErr, None), db'))"

text \<open>
  \<^verbatim>\<open>Visor.InjectUserTransactionTx\<close>: user constraints, then soft and hard constraints
  under \<^verbatim>\<open>params.UserVerifyTxn\<close>, then the pool. The result is the Go tuple
  (known, head, inputs, err).
\<close>

definition InjectUserTransactionTx ::
  "Lib \<Rightarrow> 's Visor \<Rightarrow> 's \<Rightarrow> Transaction
    \<Rightarrow> (bool \<times> SignedBlock option \<times> UxArray \<times> error option) \<times> 's" where
  "InjectUserTransactionTx lib vs tx txn =
     (case VerifySingleTxnUserConstraints lib txn of
        Some e \<Rightarrow> ((False, None, [], Some e), tx)
      | None \<Rightarrow>
     (case VerifySingleTxnSoftHardConstraints (blockchain vs) tx txn
             (Config_Distribution (Visor_Config vs)) (UserVerifyTxn lib) TxnSigned of
        Inl e \<Rightarrow> ((False, None, [], Some e), tx)
      | Inr (head, inputs) \<Rightarrow>
     (case InjectTransaction (unconfirmed vs) tx (blockchain vs) txn
             (Config_Distribution (Visor_Config vs)) (UserVerifyTxn lib) of
        ((known, softErr, err), tx') \<Rightarrow> ((known, Some head, inputs, err), tx'))))"

text \<open>\<^verbatim>\<open>Visor.InjectUserTransaction\<close>: the same in one update.\<close>

definition InjectUserTransaction ::
  "Lib \<Rightarrow> 's Visor \<Rightarrow> Transaction \<Rightarrow> 's
    \<Rightarrow> (bool \<times> SignedBlock option \<times> UxArray \<times> error option) \<times> 's" where
  "InjectUserTransaction lib vs txn db =
     (case dbUpdate
             (\<lambda>tx. case InjectUserTransactionTx lib vs tx txn of
                     ((known, head, inputs, err), tx') \<Rightarrow> ((known, head, inputs), err, tx')) db of
        (_, Some e, db') \<Rightarrow> ((False, None, [], Some e), db')
      | ((known, head, inputs), None, db') \<Rightarrow> ((known, head, inputs, None), db'))"

section \<open>Creating blocks: \<^verbatim>\<open>Visor.createBlockFromTxns\<close>\<close>

text \<open>A call returns a value, returns an error, or panics (\<^verbatim>\<open>logger.Panic\<close>).\<close>

datatype 'a outcome = Return 'a | Fail error | Panic string

text \<open>
  The filter loop: a transaction whose verification fails with a hard or a soft
  constraint violation is dropped; any other error ends the call.
\<close>

fun isConstraintViolation :: "error \<Rightarrow> bool" where
  "isConstraintViolation (ErrTxnViolatesHardConstraint m) = True"
| "isConstraintViolation (ErrTxnViolatesSoftConstraint m) = True"
| "isConstraintViolation e = False"

fun filterTxns ::
  "'s Visor \<Rightarrow> 's \<Rightarrow> Transaction list \<Rightarrow> Transaction list \<Rightarrow> error + Transaction list" where
  "filterTxns vs tx [] filteredTxns = Inr filteredTxns"
| "filterTxns vs tx (txn # txns) filteredTxns =
     (case VerifySingleTxnSoftHardConstraints (blockchain vs) tx txn
             (Config_Distribution (Visor_Config vs)) (CreateBlockVerifyTxn (Visor_Config vs))
             TxnSigned of
        Inl e \<Rightarrow> if isConstraintViolation e then filterTxns vs tx txns filteredTxns else Inl e
      | Inr r \<Rightarrow> filterTxns vs tx txns (filteredTxns @ [txn]))"

text \<open>
  Modelled from the spec: \<^verbatim>\<open>coin.Transactions.TruncateBytesTo\<close>, missing from the
  sources: "truncates to a maximum cumulative byte budget", dropping whole transactions:
  the longest prefix whose sizes add up to at most the budget. The size of a transaction is
  the parameter \<open>TxnSize\<close>.
\<close>

fun Truncate_loop ::
  "Lib \<Rightarrow> 32 word \<Rightarrow> nat \<Rightarrow> Transaction list \<Rightarrow> Transaction list \<Rightarrow> error + Transaction list" where
  "Truncate_loop lib budget tot taken [] = Inr taken"
| "Truncate_loop lib budget tot taken (txn # txns) =
     (case TxnSize lib txn of
        Inl e \<Rightarrow> Inl e
      | Inr pending \<Rightarrow>
          if tot + unat pending > unat budget then Inr taken
          else Truncate_loop lib budget (tot + unat pending) (taken @ [txn]) txns)"

definition TruncateBytesTo :: "Lib \<Rightarrow> Transaction list \<Rightarrow> 32 word \<Rightarrow> error + Transaction list" where
  "TruncateBytesTo lib txns budget = Truncate_loop lib budget 0 [] txns"

definition createBlockFromTxns ::
  "Lib \<Rightarrow> 's Visor \<Rightarrow> 's \<Rightarrow> Transaction list \<Rightarrow> 64 word \<Rightarrow> Block outcome" where
  "createBlockFromTxns lib vs tx txns when =
     (if txns = [] then Fail ErrNoTransactions
      else
     (case filterTxns vs tx txns [] of
        Inl e \<Rightarrow> Fail e
      | Inr filteredTxns \<Rightarrow>
     (if filteredTxns = [] then Fail ErrNoTransactionsAfterFiltering
      else
     (case Head (blockchain vs) tx of
        Inl e \<Rightarrow> Fail e
      | Inr head \<Rightarrow>
     (case SortTransactions lib filteredTxns
             (TransactionFee (blockchain vs) tx (Time (Block_Head (SignedBlock_Block head)))) of
        Inl e \<Rightarrow> Fail e
      | Inr sortedTxns \<Rightarrow>
     (case TruncateBytesTo lib sortedTxns (MaxBlockTransactionsSize (Visor_Config vs)) of
        Inl e \<Rightarrow> Fail e
      | Inr truncated \<Rightarrow>
          (let capped =
                 (if length truncated > MaxBlockTransactions lib
                  then take (MaxBlockTransactions lib) truncated else truncated)
           in if capped = [] then Panic ''TruncateBytesTo removed all transactions''
              else
                (case NewBlock (blockchain vs) tx capped when of
                   Inl e \<Rightarrow> Fail e
                 | Inr b \<Rightarrow> Return b))))))))"

section \<open>Rebuilding the history index: \<^verbatim>\<open>initHistory\<close> and \<^verbatim>\<open>parseHistoryTo\<close>\<close>

text \<open>
  The loop \<^verbatim>\<open>for i := uint64(0); i < height-parsedBlockSeq; i++\<close> of
  \<^verbatim>\<open>parseHistoryTo\<close>: all arithmetic is \<^verbatim>\<open>uint64\<close> and wraps around.
\<close>

function parseLoop ::
  "'s Historyer \<Rightarrow> 's Blockchainer \<Rightarrow> 64 word \<Rightarrow> 64 word \<Rightarrow> 64 word \<Rightarrow> 's
    \<Rightarrow> error option \<times> 's" where
  "parseLoop hist bc parsedBlockSeq height i tx =
     (if i < height - parsedBlockSeq then
        (case GetSignedBlockBySeq bc tx (parsedBlockSeq + i + 1) of
           Inl e \<Rightarrow> (Some e, tx)
         | Inr None \<Rightarrow> (Some (ErrNoBlockInDepth (parsedBlockSeq + i + 1)), tx)
         | Inr (Some b) \<Rightarrow>
             (case ParseBlock hist tx (SignedBlock_Block b) of
                (Some e, tx') \<Rightarrow> (Some e, tx')
              | (None, tx') \<Rightarrow> parseLoop hist bc parsedBlockSeq height (i + 1) tx'))
      else (None, tx))"
  by pat_completeness auto
termination
proof (relation "measure (\<lambda>(hist, bc, p, height, i, tx). unat (height - p) - unat i)")
  show "wf (measure (\<lambda>(hist, bc, p, height, i, tx). unat (height - p) - unat i))"
    by simp
next
  fix hist :: "'s Historyer" and bc :: "'s Blockchainer"
    and parsedBlockSeq height i :: "64 word" and tx tx' :: 's
  assume lt: "i < height - parsedBlockSeq"
  have bound: "unat i < unat (height - parsedBlockSeq)"
    using lt by (simp add: word_less_nat_alt)
  moreover have "unat (height - parsedBlockSeq) < 2 ^ 64"
    using unsigned_less [of "height - parsedBlockSeq"] by simp
  ultimately have "unat i + 1 < 2 ^ 64"
    by simp
  then have "unat (i + 1) = unat i + 1"
    by (simp add: unat_word_ariths)
  with bound show
    "((hist, bc, parsedBlockSeq, height, i + 1, tx'), (hist, bc, parsedBlockSeq, height, i, tx))
      \<in> measure (\<lambda>(hist, bc, p, height, i, tx). unat (height - p) - unat i)"
    by simp
qed

declare parseLoop.simps [simp del]

definition parseHistoryTo ::
  "'s Historyer \<Rightarrow> 's Blockchainer \<Rightarrow> 's \<Rightarrow> 64 word \<Rightarrow> error option \<times> 's" where
  "parseHistoryTo hist bc tx height =
     (case ParsedBlockSeq hist tx of
        Inl e \<Rightarrow> (Some e, tx)
      | Inr (parsedBlockSeq, ok) \<Rightarrow> parseLoop hist bc parsedBlockSeq height 0 tx)"

definition initHistory :: "'s Historyer \<Rightarrow> 's Blockchainer \<Rightarrow> 's \<Rightarrow> error option \<times> 's" where
  "initHistory hist bc tx =
     (case NeedsReset hist tx of
        Inl e \<Rightarrow> (Some e, tx)
      | Inr shouldReset \<Rightarrow>
          if \<not> shouldReset then (None, tx)
          else
            (case Erase hist tx of
               (Some e, tx1) \<Rightarrow> (Some e, tx1)
             | (None, tx1) \<Rightarrow>
                 (case HeadSeq bc tx1 of
                    Inl e \<Rightarrow> (Some e, tx1)
                  | Inr (headSeq, ok) \<Rightarrow> parseHistoryTo hist bc tx1 headSeq)))"

section \<open>Address activity: \<^verbatim>\<open>TransactionsFinder.AddressesActivity\<close>\<close>

text \<open>
  A \<^verbatim>\<open>cipher.Addresser\<close> is a \<^verbatim>\<open>cipher.Address\<close> or an address of another kind,
  for which the type assertion \<^verbatim>\<open>a.(cipher.Address)\<close> fails.
\<close>

datatype Addresser = SkycoinAddress Address | OtherAddresser string

record 's TransactionsFinder =
  tf_history :: "'s Historyer"
  tf_unconfirmed :: "'s UnconfirmedTransactionPooler"

definition newTransactionsFinder :: "'s Visor \<Rightarrow> 's TransactionsFinder" where
  "newTransactionsFinder v = \<lparr>tf_history = history v, tf_unconfirmed = unconfirmed v\<rparr>"

fun toSkyAddrs :: "Addresser list \<Rightarrow> error + Address list" where
  "toSkyAddrs [] = Inr []"
| "toSkyAddrs (SkycoinAddress addr # addrs) =
     (case toSkyAddrs addrs of Inl e \<Rightarrow> Inl e | Inr skyAddrs \<Rightarrow> Inr (addr # skyAddrs))"
| "toSkyAddrs (OtherAddresser k # addrs) = Inl ErrInvalidSkycoinAddress"

text \<open>
  \<^verbatim>\<open>for i, a := range skyAddrs { addrsMap[a] = i }\<close>: the map is an association list
  with one entry per key, so its length is \<^verbatim>\<open>len(addrsMap)\<close>.
\<close>

fun buildAddrsMap :: "nat \<Rightarrow> Address list \<Rightarrow> (Address \<times> nat) list \<Rightarrow> (Address \<times> nat) list" where
  "buildAddrsMap i [] addrsMap = addrsMap"
| "buildAddrsMap i (a # skyAddrs) addrsMap =
     buildAddrsMap (Suc i) skyAddrs (AList.update a i addrsMap)"

text \<open>
  The scan of the history from the last address to the first; \<open>n\<close> addresses are left to
  look at, the next one has index \<open>n - 1\<close>. It stops at the first address seen.
\<close>

fun scanHistory :: "'s Historyer \<Rightarrow> 's \<Rightarrow> Address list \<Rightarrow> nat \<Rightarrow> bool list \<Rightarrow> error + bool list" where
  "scanHistory hist tx skyAddrs 0 active = Inr active"
| "scanHistory hist tx skyAddrs (Suc i) active =
     (case AddressSeen hist tx (skyAddrs ! i) of
        Inl e \<Rightarrow> Inl e
      | Inr ok \<Rightarrow>
          if ok then Inr (active[i := True]) else scanHistory hist tx skyAddrs i active)"

text \<open>The callback of \<^verbatim>\<open>unconfirmed.ForEach\<close>, over every output of every pooled transaction.\<close>

fun markOutputs :: "(Address \<times> nat) list \<Rightarrow> TransactionOutput list \<Rightarrow> bool list \<Rightarrow> bool list" where
  "markOutputs addrsMap [] active = active"
| "markOutputs addrsMap (out # outs) active =
     (case map_of addrsMap (Out_Address out) of
        Some i \<Rightarrow> markOutputs addrsMap outs (active[i := True])
      | None \<Rightarrow> markOutputs addrsMap outs active)"

fun markPool ::
  "(Address \<times> nat) list \<Rightarrow> (SHA256 \<times> UnconfirmedTransaction) list \<Rightarrow> bool list \<Rightarrow> bool list" where
  "markPool addrsMap [] active = active"
| "markPool addrsMap ((h, ut) # pool) active =
     markPool addrsMap pool (markOutputs addrsMap (Out (UT_Transaction ut)) active)"

definition AddressesActivity ::
  "'s TransactionsFinder \<Rightarrow> Addresser list \<Rightarrow> 's \<Rightarrow> error + bool list" where
  "AddressesActivity tf addrs db =
     (if addrs = [] then Inr []
      else
     (case toSkyAddrs addrs of
        Inl e \<Rightarrow> Inl e
      | Inr skyAddrs \<Rightarrow>
          (let active = replicate (length addrs) False;
               addrsMap = buildAddrsMap 0 skyAddrs []
           in if length addrsMap \<noteq> length addrs then Inl ErrDuplicateAddresses
              else
                (case scanHistory (tf_history tf) db skyAddrs (length skyAddrs) active of
                   Inl e \<Rightarrow> Inl e
                 | Inr active' \<Rightarrow>
                     (case ForEach (tf_unconfirmed tf) db of
                        Inl e \<Rightarrow> Inl e
                      | Inr pool \<Rightarrow> Inr (markPool addrsMap pool active'))))))"

section \<open>An in-memory node\<close>

text \<open>
  The closed examples below run the visor on a small in-memory database, with simple
  implementations of the collaborators in the way the repository's tests use fakes
  (\<^verbatim>\<open>mockTxnsFinder\<close> of \<^verbatim>\<open>src/src/api/wallet_test.go\<close>). No general theorem
  depends on them: the theorems hold for every implementation of the interfaces.
\<close>

record DB =
  DB_blocks :: "SignedBlock list"
  DB_unspent :: "UxOut list"
  DB_pool :: "(SHA256 \<times> UnconfirmedTransaction) list"
  DB_history :: "Block list"
  DB_parsedSeq :: "64 word option"

definition memTxnHash :: "Transaction \<Rightarrow> SHA256" where
  "memTxnHash txn = sum_list (In txn) + word_of_nat (length (Out txn))"

definition memCreateUnspent :: "BlockHeader \<Rightarrow> Transaction \<Rightarrow> nat \<Rightarrow> error + UxOut" where
  "memCreateUnspent bh txn i =
     (if i < length (Out txn) then
        Inr \<lparr>UxOut_Head = \<lparr>UxHead_Time = Time bh, UxHead_BkSeq = BkSeq bh\<rparr>,
             UxOut_Body = \<lparr>SrcTransaction = memTxnHash txn,
                           UxBody_Address = Out_Address (Out txn ! i),
                           UxBody_Coins = Out_Coins (Out txn ! i),
                           UxBody_Hours = Out_Hours (Out txn ! i)\<rparr>\<rparr>
      else Inl (ErrOther ''Transaction out index overflows transaction outputs''))"

text \<open>
  The coin-hours of one output: its hours at creation plus one hour per whole coin
  (1000000 droplets) and 3600 seconds since creation, the addition overflow-checked.
\<close>

definition memCoinHours :: "UxOut \<Rightarrow> 64 word \<Rightarrow> error + 64 word" where
  "memCoinHours ux t =
     (if t < UxHead_Time (UxOut_Head ux) then Inr (UxBody_Hours (UxOut_Body ux))
      else
        (case AddUint64 (UxBody_Hours (UxOut_Body ux))
                ((t - UxHead_Time (UxOut_Head ux)) * (UxBody_Coins (UxOut_Body ux) div 1000000)
                  div 3600) of
           Inl e \<Rightarrow> Inl ErrAddEarnedCoinHoursAdditionOverflow
         | Inr h \<Rightarrow> Inr h))"

definition memLib :: Lib where
  "memLib =
     \<lparr>TxnHash = memTxnHash,
      UxHash = (\<lambda>ux. SrcTransaction (UxOut_Body ux) + ucast (UxBody_Coins (UxOut_Body ux))),
      UxOut_CoinHours = memCoinHours,
      CreateUnspent = memCreateUnspent,
      VerifySignature =
        (\<lambda>b pk. if SignedBlock_Sig b = ucast pk then None else Some ErrSignatureNotValid),
      VerifySingleTxnUserConstraints =
        (\<lambda>txn. if list_ex (\<lambda>out. Out_Address out = \<lparr>Version = 0, Key = 0\<rparr>) (Out txn)
               then Some (ErrTxnViolatesUserConstraint
                            ''Transaction output is sent to the null address'')
               else None),
      SortTransactions = (\<lambda>txns fee. Inr txns),
      TxnSize = (\<lambda>txn. Inr (word_of_nat (32 * length (In txn) + 37 * length (Out txn) + 9))),
      MaxBlockTransactions = 4,
      UserVerifyTxn = \<lparr>BurnFactor = 10, MaxTransactionSize = 200, MaxDropletPrecision = 3\<rparr>,
      Now = 0\<rparr>"

text \<open>
  The unspent-output index. \<open>memUnspent\<close> answers \<^verbatim>\<open>GetUnspentsOfAddrs\<close> with an
  entry for every queried address, empty when the address owns nothing;
  \<open>memUnspentOwners\<close> answers with entries for the addresses that own an output only.
\<close>

definition memUnspentGet :: "Lib \<Rightarrow> DB \<Rightarrow> SHA256 \<Rightarrow> error + UxOut option" where
  "memUnspentGet lib db h = Inr (find (\<lambda>ux. UxHash lib ux = h) (DB_unspent db))"

definition ownedBy :: "DB \<Rightarrow> Address \<Rightarrow> UxArray" where
  "ownedBy db a = filter (\<lambda>ux. UxBody_Address (UxOut_Body ux) = a) (DB_unspent db)"

definition memUnspent :: "Lib \<Rightarrow> DB UnspentPooler" where
  "memUnspent lib =
     \<lparr>Unspent_Get = memUnspentGet lib,
      GetUnspentsOfAddrs =
        (\<lambda>db addrs. Inr (\<lambda>a. if a \<in> set addrs then Some (ownedBy db a) else None))\<rparr>"


text \<open>
  The chain. A transaction violates a hard constraint when it spends an output that is
  not unspent, and a soft constraint when it is larger than the policy allows.
\<close>

definition memHead :: "DB \<Rightarrow> error + SignedBlock" where
  "memHead db =
     (if DB_blocks db = [] then Inl (ErrOther ''found no head block'')
      else Inr (last (DB_blocks db)))"

definition memVerify ::
  "Lib \<Rightarrow> DB \<Rightarrow> Transaction \<Rightarrow> Distribution \<Rightarrow> VerifyTxn \<Rightarrow> TxnSignedFlag
    \<Rightarrow> error + (SignedBlock \<times> UxArray)" where
  "memVerify lib db txn dist params flag =
     (case memHead db of
        Inl e \<Rightarrow> Inl e
      | Inr head \<Rightarrow>
     (case GetArray (memUnspent lib) db (In txn) of
        Inl e \<Rightarrow> Inl (ErrTxnViolatesHardConstraint ''unspent output does not exist'')
      | Inr uxa \<Rightarrow>
     (case TxnSize lib txn of
        Inl e \<Rightarrow> Inl e
      | Inr n \<Rightarrow>
          if MaxTransactionSize params < n
          then Inl (ErrTxnViolatesSoftConstraint ''Transaction size bigger than max block size'')
          else Inr (head, uxa))))"

definition memCreateUnspents :: "BlockHeader \<Rightarrow> Transaction list \<Rightarrow> UxArray" where
  "memCreateUnspents bh txns =
     concat (map (\<lambda>txn. map (\<lambda>i.
        \<lparr>UxOut_Head = \<lparr>UxHead_Time = Time bh, UxHead_BkSeq = BkSeq bh\<rparr>,
         UxOut_Body = \<lparr>SrcTransaction = memTxnHash txn,
                       UxBody_Address = Out_Address (Out txn ! i),
                       UxBody_Coins = Out_Coins (Out txn ! i),
                       UxBody_Hours = Out_Hours (Out txn ! i)\<rparr>\<rparr>) [0..<length (Out txn)]) txns)"

definition memExecuteBlock :: "Lib \<Rightarrow> DB \<Rightarrow> SignedBlock \<Rightarrow> error option \<times> DB" where
  "memExecuteBlock lib db b =
     (let txns = Block_Transactions (SignedBlock_Block b);
          ins = concat (map In txns)
      in if list_ex (\<lambda>h. \<not> list_ex (\<lambda>ux. UxHash lib ux = h) (DB_unspent db)) ins
         then (Some (ErrTxnViolatesHardConstraint ''unspent output does not exist''), db)
         else (None,
               db\<lparr>DB_blocks := DB_blocks db @ [b],
                  DB_unspent :=
                    filter (\<lambda>ux. UxHash lib ux \<notin> set ins) (DB_unspent db)
                      @ memCreateUnspents (Block_Head (SignedBlock_Block b)) txns\<rparr>))"

definition memChainOver :: "Lib \<Rightarrow> DB UnspentPooler \<Rightarrow> DB Blockchainer" where
  "memChainOver lib up =
     \<lparr>Unspent = up,
      Head = memHead,
      HeadSeq =
        (\<lambda>db. Inr (if DB_blocks db = [] then (0, False)
                    else (word_of_nat (length (DB_blocks db) - 1), True))),
      GetSignedBlockBySeq =
        (\<lambda>db s. Inr (if unat s < length (DB_blocks db) then Some (DB_blocks db ! unat s)
                      else None)),
      VerifySingleTxnSoftHardConstraints = memVerify lib,
      TransactionFee = (\<lambda>db t txn. Inr 0),
      NewBlock =
        (\<lambda>db txns when.
           Inr \<lparr>Block_Head = \<lparr>BkSeq = word_of_nat (length (DB_blocks db)), Time = when,
                               PrevHash = 0, BodyHash = 0\<rparr>,
                Block_Transactions = txns\<rparr>),
      ExecuteBlock = memExecuteBlock lib\<rparr>"

definition memChain :: "Lib \<Rightarrow> DB Blockchainer" where
  "memChain lib = memChainOver lib (memUnspent lib)"

text \<open>
  Modelled from the spec: \<^verbatim>\<open>InjectTransaction\<close> of the unconfirmed pool, missing from
  the sources: it "runs verify_single_transaction hard constraints (fatal on failure);
  soft-constraint failures are recorded but do not block injection"; it is "idempotent:
  re-injecting an already-present hash reports already_known = true without duplicating
  state". The validity flag of the stored transaction records the soft violation.
\<close>

definition poolPut ::
  "Lib \<Rightarrow> DB \<Rightarrow> Transaction \<Rightarrow> error option \<Rightarrow> (bool \<times> error option \<times> error option) \<times> DB" where
  "poolPut lib db txn softErr =
     (let h = TxnHash lib txn;
          isValid = (if softErr = None then 1 else 0)
      in if h \<in> set (map fst (DB_pool db))
         then ((True, softErr, None),
               db\<lparr>DB_pool :=
                    map (\<lambda>(k, u). if k = h
                                   then (k, u\<lparr>Received := Now lib, Checked := Now lib,
                                              IsValid := isValid\<rparr>)
                                   else (k, u)) (DB_pool db)\<rparr>)
         else ((False, softErr, None),
               db\<lparr>DB_pool :=
                    DB_pool db @ [(h, \<lparr>UT_Transaction = txn, Received = Now lib,
                                       Checked = Now lib, Announced = 0,
                                       IsValid = isValid\<rparr>)]\<rparr>))"

definition poolInjectTransaction ::
  "Lib \<Rightarrow> DB \<Rightarrow> DB Blockchainer \<Rightarrow> Transaction \<Rightarrow> Distribution \<Rightarrow> VerifyTxn
    \<Rightarrow> (bool \<times> error option \<times> error option) \<times> DB" where
  "poolInjectTransaction lib db bc txn dist params =
     (case VerifySingleTxnSoftHardConstraints bc db txn dist params TxnSigned of
        Inr r \<Rightarrow> poolPut lib db txn None
      | Inl e \<Rightarrow>
          (case e of
             ErrTxnViolatesSoftConstraint m \<Rightarrow> poolPut lib db txn (Some e)
           | _ \<Rightarrow> ((False, None, Some e), db)))"

text \<open>
  Modelled from the spec: the other operations of the pool, missing from the sources.
  \<^verbatim>\<open>RemoveTransactions\<close> is the spec's remove_confirmed: it "deletes pooled entries
  whose hash is now confirmed. Never fails for missing hashes".
\<close>

definition memPool :: "Lib \<Rightarrow> DB UnconfirmedTransactionPooler" where
  "memPool lib =
     \<lparr>AllRawTransactions = (\<lambda>db. Inr (map (\<lambda>(h, ut). UT_Transaction ut) (DB_pool db))),
      ForEach = (\<lambda>db. Inr (DB_pool db)),
      InjectTransaction = poolInjectTransaction lib,
      RemoveTransactions =
        (\<lambda>db hashes. (None, db\<lparr>DB_pool := filter (\<lambda>(h, ut). h \<notin> set hashes) (DB_pool db)\<rparr>))\<rparr>"

text \<open>
  Modelled from the spec: the history index, missing from the sources. It keeps the
  blocks it has parsed and the sequence number of the last one: needs_reset is "true if
  the index's parsed-height bookkeeping is stale, missing, or inconsistent",
  parse_block "incrementally extends the index by one block", and parsed_block_seq
  returns "(seq, ok)": with no bookkeeping, the zero sequence number and \<open>False\<close>.
\<close>

definition memHistory :: "DB Historyer" where
  "memHistory =
     \<lparr>NeedsReset = (\<lambda>db. Inr (DB_parsedSeq db = None)),
      Erase = (\<lambda>db. (None, db\<lparr>DB_history := [], DB_parsedSeq := None\<rparr>)),
      ParsedBlockSeq =
        (\<lambda>db. Inr (case DB_parsedSeq db of None \<Rightarrow> (0, False) | Some s \<Rightarrow> (s, True))),
      ParseBlock =
        (\<lambda>db b. (None, db\<lparr>DB_history := DB_history db @ [b],
                           DB_parsedSeq := Some (BkSeq (Block_Head b))\<rparr>)),
      AddressSeen =
        (\<lambda>db a. Inr (list_ex (\<lambda>b. list_ex (\<lambda>txn. list_ex (\<lambda>out. Out_Address out = a)
                        (Out txn)) (Block_Transactions b)) (DB_history db)))\<rparr>"

definition memConfig :: Config where
  "memConfig =
     \<lparr>IsBlockPublisher = True, BlockchainPubkey = 7, Config_Distribution = 0,
      UnconfirmedVerifyTxn =
        \<lparr>BurnFactor = 10, MaxTransactionSize = 200, MaxDropletPrecision = 3\<rparr>,
      CreateBlockVerifyTxn =
        \<lparr>BurnFactor = 10, MaxTransactionSize = 200, MaxDropletPrecision = 3\<rparr>,
      MaxBlockTransactionsSize = 200\<rparr>"

definition memVisor :: "DB Visor" where
  "memVisor =
     \<lparr>Visor_Config = memConfig, unconfirmed = memPool memLib,
      blockchain = memChain memLib, history = memHistory\<rparr>"

subsection \<open>Example data\<close>

text \<open>
  Two addresses; a genesis block that pays 100 coins to the first; a transaction that
  spends the genesis output to the second address, and the block that confirms it; a
  third block that pays the coins back.
\<close>

definition addrA :: Address where
  "addrA = \<lparr>Version = 0, Key = 1\<rparr>"

definition addrB :: Address where
  "addrB = \<lparr>Version = 0, Key = 2\<rparr>"

definition genesisTxn :: Transaction where
  "genesisTxn =
     \<lparr>In = [], Out = [\<lparr>Out_Address = addrA, Out_Coins = 100000000, Out_Hours = 10\<rparr>]\<rparr>"

definition genesisBlock :: SignedBlock where
  "genesisBlock =
     \<lparr>SignedBlock_Block =
        \<lparr>Block_Head = \<lparr>BkSeq = 0, Time = 1000, PrevHash = 0, BodyHash = 0\<rparr>,
         Block_Transactions = [genesisTxn]\<rparr>,
      SignedBlock_Sig = 7\<rparr>"

definition genesisUx :: UxOut where
  "genesisUx =
     \<lparr>UxOut_Head = \<lparr>UxHead_Time = 1000, UxHead_BkSeq = 0\<rparr>,
      UxOut_Body = \<lparr>SrcTransaction = 1, UxBody_Address = addrA,
                    UxBody_Coins = 100000000, UxBody_Hours = 10\<rparr>\<rparr>"

text \<open>The node after the genesis block, with an empty pool.\<close>

definition db1 :: DB where
  "db1 =
     \<lparr>DB_blocks = [genesisBlock], DB_unspent = [genesisUx], DB_pool = [],
      DB_history = [SignedBlock_Block genesisBlock], DB_parsedSeq = Some 0\<rparr>"

definition txn1 :: Transaction where
  "txn1 =
     \<lparr>In = [100000001],
      Out = [\<lparr>Out_Address = addrB, Out_Coins = 100000000, Out_Hours = 5\<rparr>]\<rparr>"

definition utxn1 :: UnconfirmedTransaction where
  "utxn1 = \<lparr>UT_Transaction = txn1, Received = 0, Checked = 0, Announced = 0, IsValid = 1\<rparr>"

text \<open>The same node with \<open>txn1\<close> in the pool.\<close>

definition db2 :: DB where
  "db2 = db1\<lparr>DB_pool := [(100000002, utxn1)]\<rparr>"

definition block1 :: SignedBlock where
  "block1 =
     \<lparr>SignedBlock_Block =
        \<lparr>Block_Head = \<lparr>BkSeq = 1, Time = 2000, PrevHash = 0, BodyHash = 0\<rparr>,
         Block_Transactions = [txn1]\<rparr>,
      SignedBlock_Sig = 7\<rparr>"

definition ux1 :: UxOut where
  "ux1 =
     \<lparr>UxOut_Head = \<lparr>UxHead_Time = 2000, UxHead_BkSeq = 1\<rparr>,
      UxOut_Body = \<lparr>SrcTransaction = 100000002, UxBody_Address = addrB,
                    UxBody_Coins = 100000000, UxBody_Hours = 5\<rparr>\<rparr>"

text \<open>The node after \<open>block1\<close>.\<close>

definition db3 :: DB where
  "db3 =
     \<lparr>DB_blocks = [genesisBlock, block1], DB_unspent = [ux1], DB_pool = [],
      DB_history = [SignedBlock_Block genesisBlock, SignedBlock_Block block1],
      DB_parsedSeq = Some 1\<rparr>"

definition txn2 :: Transaction where
  "txn2 =
     \<lparr>In = [200000002],
      Out = [\<lparr>Out_Address = addrA, Out_Coins = 100000000, Out_Hours = 1\<rparr>]\<rparr>"

definition block2 :: SignedBlock where
  "block2 =
     \<lparr>SignedBlock_Block =
        \<lparr>Block_Head = \<lparr>BkSeq = 2, Time = 3000, PrevHash = 0, BodyHash = 0\<rparr>,
         Block_Transactions = [txn2]\<rparr>,
      SignedBlock_Sig = 7\<rparr>"

text \<open>
  A transaction too large for the policies of the in-memory node (a soft violation), and
  one that spends an output that does not exist (a hard violation).
\<close>

definition bigTxn :: Transaction where
  "bigTxn =
     \<lparr>In = [100000001],
      Out = replicate 6 \<lparr>Out_Address = addrB, Out_Coins = 1000000, Out_Hours = 0\<rparr>\<rparr>"

definition badTxn :: Transaction where
  "badTxn =
     \<lparr>In = [5], Out = [\<lparr>Out_Address = addrB, Out_Coins = 1000000, Out_Hours = 0\<rparr>]\<rparr>"

text \<open>The error type \<^verbatim>\<open>transaction.ErrTxnViolatesSoftConstraint\<close>.\<close>

fun isSoftViolation :: "error \<Rightarrow> bool" where
  "isSoftViolation (ErrTxnViolatesSoftConstraint m) = True"
| "isSoftViolation e = False"

text \<open>The in-memory node with a block budget smaller than \<open>txn1\<close> (78 bytes).\<close>

definition memVisorSmallBlocks :: "DB Visor" where
  "memVisorSmallBlocks =
     memVisor\<lparr>Visor_Config := memConfig\<lparr>MaxBlockTransactionsSize := 50\<rparr>\<rparr>"

text \<open>
  A node with three blocks on the chain whose history index has no parsed-height
  bookkeeping, as after an interrupted or outdated index build.
\<close>

definition dbStale :: DB where
  "dbStale =
     \<lparr>DB_blocks = [genesisBlock, block1, block2], DB_unspent = [], DB_pool = [],
      DB_history = [], DB_parsedSeq = None\<rparr>"

text \<open>
  The sequence numbers \<^verbatim>\<open>parsedBlockSeq+i+1\<close> that the loop of \<^verbatim>\<open>parseHistoryTo\<close>
  asks the chain for, from the loop counter \<open>i\<close> on, and the loop written as a recursion
  over such a list; \<open>parseLoop_parseBlocks\<close> below shows that the two agree.
\<close>

definition requestedSeqs :: "64 word \<Rightarrow> 64 word \<Rightarrow> nat \<Rightarrow> 64 word list" where
  "requestedSeqs parsedBlockSeq height i =
     map (\<lambda>k. parsedBlockSeq + word_of_nat k + 1) [i..<unat (height - parsedBlockSeq)]"

fun parseBlocks ::
  "'s Historyer \<Rightarrow> 's Blockchainer \<Rightarrow> 64 word list \<Rightarrow> 's \<Rightarrow> error option \<times> 's" where
  "parseBlocks hist bc [] tx = (None, tx)"
| "parseBlocks hist bc (s # seqs) tx =
     (case GetSignedBlockBySeq bc tx s of
        Inl e \<Rightarrow> (Some e, tx)
      | Inr None \<Rightarrow> (Some (ErrNoBlockInDepth s), tx)
      | Inr (Some b) \<Rightarrow>
          (case ParseBlock hist tx (SignedBlock_Block b) of
             (Some e, tx') \<Rightarrow> (Some e, tx')
           | (None, tx') \<Rightarrow> parseBlocks hist bc seqs tx'))"

text \<open>The node \<open>db1\<close> with \<open>badTxn\<close> (hash 6) in the pool.\<close>

definition dbBadPooled :: DB where
  "dbBadPooled =
     db1\<lparr>DB_pool := [(6, \<lparr>UT_Transaction = badTxn, Received = 0, Checked = 0,
                             Announced = 0, IsValid = 1\<rparr>)]\<rparr>"

text \<open>
  \<open>pooledIn lib txn valid db db'\<close>: \<open>db'\<close> is \<open>db\<close> with \<open>txn\<close> injected into the
  pool. Only the pool differs; every entry under the transaction's hash carries the
  validity flag \<open>valid\<close>; if the hash was in the pool the hashes and transactions of
  the pool are the same as before (nothing is stored twice), otherwise one entry for the
  transaction is added at the end.
\<close>

definition pooledIn :: "Lib \<Rightarrow> Transaction \<Rightarrow> 8 word \<Rightarrow> DB \<Rightarrow> DB \<Rightarrow> bool" where
  "pooledIn lib txn valid db db' =
     (db' = db\<lparr>DB_pool := DB_pool db'\<rparr> \<and>
      list_all (\<lambda>(h, ut). h \<noteq> TxnHash lib txn \<or> IsValid ut = valid) (DB_pool db') \<and>
      (if TxnHash lib txn \<in> fst ` set (DB_pool db)
       then map (\<lambda>(h, ut). (h, UT_Transaction ut)) (DB_pool db')
              = map (\<lambda>(h, ut). (h, UT_Transaction ut)) (DB_pool db)
       else \<exists>ut. DB_pool db' = DB_pool db @ [(TxnHash lib txn, ut)] \<and>
                 UT_Transaction ut = txn))"

text \<open>
  An address appears in the pool when it is the address of an output of a pooled
  transaction.
\<close>

definition inPool :: "(SHA256 \<times> UnconfirmedTransaction) list \<Rightarrow> Address \<Rightarrow> bool" where
  "inPool pool a =
     list_ex (\<lambda>(h, ut). list_ex (\<lambda>out. Out_Address out = a) (Out (UT_Transaction ut))) pool"

text \<open>
  What \<^verbatim>\<open>GetBalanceOfAddresses\<close> computes for one address: the zero pair when the
  address has no entry in \<^verbatim>\<open>auxs\<close>, the result of \<open>balanceOf\<close> otherwise.
\<close>

definition pairFor ::
  "Lib \<Rightarrow> 64 word \<Rightarrow> AddressUxOuts \<Rightarrow> AddressUxOuts \<Rightarrow> AddressUxOuts \<Rightarrow> Address
    \<Rightarrow> BalancePair \<Rightarrow> bool" where
  "pairFor lib headTime auxs spendUxs recvUxs a bp =
     (case auxs a of
        None \<Rightarrow> bp = zeroBalancePair
      | Some uxs \<Rightarrow>
          balanceOf lib headTime uxs (lookupUxs spendUxs a) (lookupUxs recvUxs a) = Inr bp)"


definition incomingOutputs :: "Lib \<Rightarrow> 's Visor \<Rightarrow> 's \<Rightarrow> Address list \<Rightarrow> Address \<Rightarrow> UxArray" where
  "incomingOutputs lib vs db addrs a =
     (case Head (blockchain vs) db of
        Inl e \<Rightarrow> []
      | Inr head \<Rightarrow>
     (case AllRawTransactions (unconfirmed vs) db of
        Inl e \<Rightarrow> []
      | Inr txns \<Rightarrow>
     (case txnOutputsForAddrs lib (Block_Head (SignedBlock_Block head)) addrs txns of
        Inl e \<Rightarrow> []
      | Inr recvUxs \<Rightarrow> lookupUxs recvUxs a)))"

definition spentOutputs :: "'s Visor \<Rightarrow> 's \<Rightarrow> Address list \<Rightarrow> Address \<Rightarrow> UxArray" where
  "spentOutputs vs db addrs a =
     (case AllRawTransactions (unconfirmed vs) db of
        Inl e \<Rightarrow> []
      | Inr txns \<Rightarrow>
     (case GetArray (Unspent (blockchain vs)) db (concat (map In txns)) of
        Inl e \<Rightarrow> []
      | Inr uxa \<Rightarrow> lookupUxs (buildSpendUxs addrs uxa Map.empty) a))"

definition headTimeOf :: "'s Visor \<Rightarrow> 's \<Rightarrow> 64 word" where
  "headTimeOf vs db =
     (case Head (blockchain vs) db of
        Inl e \<Rightarrow> 0
      | Inr head \<Rightarrow> Time (Block_Head (SignedBlock_Block head)))"

definition predictedOutputs ::
  "Lib \<Rightarrow> 's Visor \<Rightarrow> 's \<Rightarrow> Address list \<Rightarrow> Address \<Rightarrow> UxArray \<Rightarrow> UxArray" where
  "predictedOutputs lib vs db addrs a uxs =
     UxArray_Add lib (UxArray_Sub lib uxs (spentOutputs vs db addrs a))
       (incomingOutputs lib vs db addrs a)"


section \<open>Properties of block execution\<close>

text \<open>
  C4. For every successfully executed signed block, the removal of the block's
  transactions from the unconfirmed pool and the parsing of the block into the history
  index happen in the same transaction scope as the execution of the block.
  \<^verbatim>\<open>ExecuteSignedBlock\<close> is one \<^verbatim>\<open>db.Update\<close>: when it returns no error, the database
  it leaves is the one after all three steps, each of which succeeded; when it returns an
  error, the database is the one before the call. So no committed state holds the
  executed block while its transactions are still in the pool.
\<close>

theorem C4_execute_remove_parse_one_scope:
  assumes "ExecuteSignedBlock lib vs b db = (err, db')"
  shows "(err = None \<and>
          (\<exists>tx1 tx2.
             ExecuteBlock (blockchain vs) db b = (None, tx1) \<and>
             RemoveTransactions (unconfirmed vs) tx1
               (map (TxnHash lib) (Block_Transactions (SignedBlock_Block b))) = (None, tx2) \<and>
             ParseBlock (history vs) tx2 (SignedBlock_Block b) = (None, db')))
         \<or> (err \<noteq> None \<and> db' = db)"
  using assms
  by (auto simp: ExecuteSignedBlock_def executeSignedBlock_def executeSignedBlockUnsafe_def
        dbUpdate_def split: prod.splits option.splits)

text \<open>
  On the in-memory node: executing \<open>block1\<close> with \<open>txn1\<close> pooled leaves \<open>db3\<close>, where
  the block is on the chain and in the history, and the pool is empty.
\<close>

theorem C4_witness:
  "ExecuteSignedBlock memLib memVisor block1 db2 = (None, db3) \<and>
   (\<exists>tx1 tx2.
      ExecuteBlock (blockchain memVisor) db2 block1 = (None, tx1) \<and>
      RemoveTransactions (unconfirmed memVisor) tx1
        (map (TxnHash memLib) (Block_Transactions (SignedBlock_Block block1))) = (None, tx2) \<and>
      ParseBlock (history memVisor) tx2 (SignedBlock_Block block1) = (None, db3)) \<and>
   DB_pool db3 = []"
proof -
  have run: "ExecuteSignedBlock memLib memVisor block1 db2 = (None, db3)"
    by code_simp
  have "DB_pool db3 = []"
    by (simp add: db3_def)
  with run C4_execute_remove_parse_one_scope [OF run] show ?thesis
    by simp
qed

text \<open>
  C5. For every signed block whose signature does not verify against the configured
  blockchain public key, \<^verbatim>\<open>ExecuteSignedBlock\<close> returns an error and applies no state
  change. Already inside the transaction, \<^verbatim>\<open>executeSignedBlock\<close> returns before it
  calls any collaborator, so the whole database (unspent outputs, chain head, pool and
  history) is the one before the call.
\<close>

theorem C5_invalid_signature_no_change:
  assumes "VerifySignature lib b (BlockchainPubkey (Visor_Config vs)) = Some e"
  shows "executeSignedBlock lib vs db b = (Some e, db) \<and>
         ExecuteSignedBlock lib vs b db = (Some e, db)"
  using assms
  by (simp add: executeSignedBlock_def ExecuteSignedBlock_def dbUpdate_def)

text \<open>On the in-memory node: \<open>block1\<close> with a signature of another key.\<close>

theorem C5_witness:
  "VerifySignature memLib (block1\<lparr>SignedBlock_Sig := 8\<rparr>)
     (BlockchainPubkey (Visor_Config memVisor)) = Some ErrSignatureNotValid \<and>
   ExecuteSignedBlock memLib memVisor (block1\<lparr>SignedBlock_Sig := 8\<rparr>) db2
     = (Some ErrSignatureNotValid, db2)"
proof -
  have bad: "VerifySignature memLib (block1\<lparr>SignedBlock_Sig := 8\<rparr>)
      (BlockchainPubkey (Visor_Config memVisor)) = Some ErrSignatureNotValid"
    by code_simp
  from bad C5_invalid_signature_no_change [OF bad, of db2] show ?thesis
    by simp
qed

section \<open>Properties of transaction injection\<close>

text \<open>
  C2. For every transaction submitted through \<^verbatim>\<open>InjectUserTransaction\<close>, if the
  transaction violates a soft or a hard constraint under the strict user policy, that
  is, if \<^verbatim>\<open>VerifySingleTxnSoftHardConstraints\<close> with \<^verbatim>\<open>params.UserVerifyTxn\<close> returns
  an error, the operation returns a non-nil error and the transaction is not added to
  the pool: the pool's \<^verbatim>\<open>InjectTransaction\<close> is never called and the database is
  unchanged, already inside the transaction (\<^verbatim>\<open>InjectUserTransactionTx\<close>).
\<close>

theorem C2_user_injection_rejects_violations:
  assumes "VerifySingleTxnSoftHardConstraints (blockchain vs) db txn
             (Config_Distribution (Visor_Config vs)) (UserVerifyTxn lib) TxnSigned = Inl e"
  shows "\<exists>e'. InjectUserTransactionTx lib vs db txn = ((False, None, [], Some e'), db) \<and>
               InjectUserTransaction lib vs txn db = ((False, None, [], Some e'), db)"
  using assms
  by (auto simp: InjectUserTransactionTx_def InjectUserTransaction_def dbUpdate_def
        split: option.splits)

text \<open>On the in-memory node: the oversized transaction is rejected, the node unchanged.\<close>

theorem C2_witness:
  "VerifySingleTxnSoftHardConstraints (blockchain memVisor) db1 bigTxn
     (Config_Distribution (Visor_Config memVisor)) (UserVerifyTxn memLib) TxnSigned
     = Inl (ErrTxnViolatesSoftConstraint ''Transaction size bigger than max block size'') \<and>
   (\<exists>e'. InjectUserTransaction memLib memVisor bigTxn db1 = ((False, None, [], Some e'), db1))"
proof -
  have v: "VerifySingleTxnSoftHardConstraints (blockchain memVisor) db1 bigTxn
      (Config_Distribution (Visor_Config memVisor)) (UserVerifyTxn memLib) TxnSigned
      = Inl (ErrTxnViolatesSoftConstraint ''Transaction size bigger than max block size'')"
    by code_simp
  from v C2_user_injection_rejects_violations [OF v] show ?thesis
    by blast
qed

text \<open>
  What the pool modelled from the specification does with a transaction it stores: it
  reports whether the hash was there, and leaves the database with the transaction
  pooled (\<open>pooledIn\<close>).
\<close>

lemma poolPut_pooledIn:
  "\<exists>db'. poolPut lib db txn softErr
           = ((TxnHash lib txn \<in> fst ` set (DB_pool db), softErr, None), db') \<and>
     pooledIn lib txn (if softErr = None then 1 else 0) db db'"
proof (cases "TxnHash lib txn \<in> fst ` set (DB_pool db)")
  case True
  let ?f = "\<lambda>(k, u). if k = TxnHash lib txn
              then (k, u\<lparr>Received := Now lib, Checked := Now lib,
                        IsValid := (if softErr = None then 1 else 0)\<rparr>)
              else (k, u)"
  have m: "map (\<lambda>(h, ut). (h, UT_Transaction ut)) (map ?f (DB_pool db))
      = map (\<lambda>(h, ut). (h, UT_Transaction ut)) (DB_pool db)"
    by (induction "DB_pool db") (auto split: prod.splits)
  have v: "list_all (\<lambda>(h, ut). h \<noteq> TxnHash lib txn \<or> IsValid ut = (if softErr = None then 1 else 0))
      (map ?f (DB_pool db))"
    by (auto simp: list_all_iff split: prod.splits)
  from True m v show ?thesis
    by (simp add: poolPut_def Let_def pooledIn_def image_iff)
next
  case False
  then have "list_all (\<lambda>(h, ut). h \<noteq> TxnHash lib txn) (DB_pool db)"
    by (auto simp: list_all_iff image_iff)
  then have "list_all (\<lambda>(h, ut). h \<noteq> TxnHash lib txn \<or> IsValid ut = (if softErr = None then 1 else 0)) (DB_pool db)"
    by (auto simp: list_all_iff)
  with False show ?thesis
    by (simp add: poolPut_def Let_def pooledIn_def image_iff)
qed

text \<open>
  C3, as stated, fails in its last clause: the boolean does not always report whether
  the transaction was already known to the pool. On any error
  \<^verbatim>\<open>InjectForeignTransaction\<close> returns \<^verbatim>\<open>false, nil, err\<close>. On the in-memory node
  \<open>badTxn\<close> is in the pool of \<open>dbBadPooled\<close> and violates a hard constraint (its input
  is not unspent): the boolean is \<open>False\<close> although the transaction is pooled.
\<close>

theorem C3_counterexample:
  "TxnHash memLib badTxn \<in> fst ` set (DB_pool dbBadPooled) \<and>
   InjectForeignTransaction memVisor badTxn dbBadPooled
     = ((False, None, Some (ErrTxnViolatesHardConstraint ''unspent output does not exist'')),
        dbBadPooled)"
  by code_simp

text \<open>
  C3, amended. \<^verbatim>\<open>InjectForeignTransaction\<close> runs the pool's \<^verbatim>\<open>InjectTransaction\<close>
  under \<^verbatim>\<open>Config.UnconfirmedVerifyTxn\<close> in one update. For every pool: when the pool
  returns an error, the result is \<open>(False, None, error)\<close> and the database is the one
  before the call, whatever the pool wrote; when it returns no error, the result is the
  pool's boolean and soft violation with a nil error, and the pool's writes are kept.
  With the pool's \<^verbatim>\<open>InjectTransaction\<close> as the specification describes it: when the
  verification fails with anything but a soft violation (a hard-constraint violation in
  particular), the error is returned, the boolean is false and the database is unchanged;
  when it fails with a soft violation only, the transaction is pooled (marked invalid),
  the violation is returned as data and the error is nil; when it succeeds the
  transaction is pooled (marked valid). Whenever the error is nil the boolean tells
  whether the transaction's hash was in the pool before.
\<close>

theorem C3_foreign_injection_outcomes:
  "(InjectTransaction (unconfirmed vs) db (blockchain vs) txn
      (Config_Distribution (Visor_Config vs)) (UnconfirmedVerifyTxn (Visor_Config vs))
      = ((k, s, Some e'), tx')
    \<longrightarrow> InjectForeignTransaction vs txn db = ((False, None, Some e'), db)) \<and>
   (InjectTransaction (unconfirmed vs) db (blockchain vs) txn
      (Config_Distribution (Visor_Config vs)) (UnconfirmedVerifyTxn (Visor_Config vs))
      = ((k, s, None), tx')
    \<longrightarrow> InjectForeignTransaction vs txn db = ((k, s, None), tx')) \<and>
   (InjectTransaction (unconfirmed vs) = poolInjectTransaction lib \<and>
    r = VerifySingleTxnSoftHardConstraints (blockchain vs) db txn
          (Config_Distribution (Visor_Config vs))
          (UnconfirmedVerifyTxn (Visor_Config vs)) TxnSigned \<and>
    known = (TxnHash lib txn \<in> fst ` set (DB_pool db))
    \<longrightarrow>
      (r = Inl e \<and> \<not> isSoftViolation e \<longrightarrow>
         InjectForeignTransaction vs txn db = ((False, None, Some e), db)) \<and>
      (r = Inl e \<and> isSoftViolation e \<longrightarrow>
         (\<exists>db'. InjectForeignTransaction vs txn db = ((known, Some e, None), db') \<and>
                pooledIn lib txn 0 db db')) \<and>
      (r = Inr x \<longrightarrow>
         (\<exists>db'. InjectForeignTransaction vs txn db = ((known, None, None), db') \<and>
                pooledIn lib txn 1 db db')))"
proof (intro conjI impI)
  assume "InjectTransaction (unconfirmed vs) db (blockchain vs) txn
      (Config_Distribution (Visor_Config vs)) (UnconfirmedVerifyTxn (Visor_Config vs))
      = ((k, s, Some e'), tx')"
  then show "InjectForeignTransaction vs txn db = ((False, None, Some e'), db)"
    by (simp add: InjectForeignTransaction_def dbUpdate_def)
next
  assume "InjectTransaction (unconfirmed vs) db (blockchain vs) txn
      (Config_Distribution (Visor_Config vs)) (UnconfirmedVerifyTxn (Visor_Config vs))
      = ((k, s, None), tx')"
  then show "InjectForeignTransaction vs txn db = ((k, s, None), tx')"
    by (simp add: InjectForeignTransaction_def dbUpdate_def)
next
  assume h: "InjectTransaction (unconfirmed vs) = poolInjectTransaction lib \<and>
    r = VerifySingleTxnSoftHardConstraints (blockchain vs) db txn
          (Config_Distribution (Visor_Config vs))
          (UnconfirmedVerifyTxn (Visor_Config vs)) TxnSigned \<and>
    known = (TxnHash lib txn \<in> fst ` set (DB_pool db))"
    and a: "r = Inl e \<and> \<not> isSoftViolation e"
  from h a have v: "VerifySingleTxnSoftHardConstraints (blockchain vs) db txn
      (Config_Distribution (Visor_Config vs))
      (UnconfirmedVerifyTxn (Visor_Config vs)) TxnSigned = Inl e"
    by simp
  from h have p: "InjectTransaction (unconfirmed vs) = poolInjectTransaction lib"
    by simp
  from a show "InjectForeignTransaction vs txn db = ((False, None, Some e), db)"
    by (cases e)
       (simp_all add: InjectForeignTransaction_def dbUpdate_def poolInjectTransaction_def v p)
next
  assume h: "InjectTransaction (unconfirmed vs) = poolInjectTransaction lib \<and>
    r = VerifySingleTxnSoftHardConstraints (blockchain vs) db txn
          (Config_Distribution (Visor_Config vs))
          (UnconfirmedVerifyTxn (Visor_Config vs)) TxnSigned \<and>
    known = (TxnHash lib txn \<in> fst ` set (DB_pool db))"
    and a: "r = Inl e \<and> isSoftViolation e"
  from a obtain m where e: "e = ErrTxnViolatesSoftConstraint m"
    by (cases e) auto
  obtain db' where p: "poolPut lib db txn (Some e) = ((known, Some e, None), db')"
    and q: "pooledIn lib txn 0 db db'"
    using poolPut_pooledIn [of lib db txn "Some e"] h by auto
  from h a have v: "VerifySingleTxnSoftHardConstraints (blockchain vs) db txn
      (Config_Distribution (Visor_Config vs))
      (UnconfirmedVerifyTxn (Visor_Config vs)) TxnSigned = Inl e"
    by simp
  from h have pl: "InjectTransaction (unconfirmed vs) = poolInjectTransaction lib"
    by simp
  have "InjectForeignTransaction vs txn db = ((known, Some e, None), db')"
    using p
    by (simp add: InjectForeignTransaction_def dbUpdate_def poolInjectTransaction_def v pl e)
  with q show "\<exists>db'. InjectForeignTransaction vs txn db = ((known, Some e, None), db') \<and>
                pooledIn lib txn 0 db db'"
    by blast
next
  assume h: "InjectTransaction (unconfirmed vs) = poolInjectTransaction lib \<and>
    r = VerifySingleTxnSoftHardConstraints (blockchain vs) db txn
          (Config_Distribution (Visor_Config vs))
          (UnconfirmedVerifyTxn (Visor_Config vs)) TxnSigned \<and>
    known = (TxnHash lib txn \<in> fst ` set (DB_pool db))"
    and a: "r = Inr x"
  obtain db' where p: "poolPut lib db txn None = ((known, None, None), db')"
    and q: "pooledIn lib txn 1 db db'"
    using poolPut_pooledIn [of lib db txn None] h by auto
  from h a have v: "VerifySingleTxnSoftHardConstraints (blockchain vs) db txn
      (Config_Distribution (Visor_Config vs))
      (UnconfirmedVerifyTxn (Visor_Config vs)) TxnSigned = Inr x"
    by simp
  from h have pl: "InjectTransaction (unconfirmed vs) = poolInjectTransaction lib"
    by simp
  have "InjectForeignTransaction vs txn db = ((known, None, None), db')"
    using p
    by (simp add: InjectForeignTransaction_def dbUpdate_def poolInjectTransaction_def v pl)
  with q show "\<exists>db'. InjectForeignTransaction vs txn db = ((known, None, None), db') \<and>
                pooledIn lib txn 1 db db'"
    by blast
qed

text \<open>
  On the in-memory node: the transaction with the missing input is rejected, the
  oversized one is pooled with its soft violation reported, and \<open>txn1\<close>, already pooled
  in \<open>db2\<close>, is reported as known.
\<close>

theorem C3_witness:
  "InjectForeignTransaction memVisor badTxn db1
     = ((False, None, Some (ErrTxnViolatesHardConstraint ''unspent output does not exist'')), db1) \<and>
   (\<exists>db'. InjectForeignTransaction memVisor bigTxn db1
            = ((False,
                Some (ErrTxnViolatesSoftConstraint ''Transaction size bigger than max block size''),
                None), db') \<and>
          pooledIn memLib bigTxn 0 db1 db') \<and>
   (\<exists>db'. InjectForeignTransaction memVisor txn1 db2 = ((True, None, None), db') \<and>
          pooledIn memLib txn1 1 db2 db')"
proof -
  have pool: "InjectTransaction (unconfirmed memVisor) = poolInjectTransaction memLib"
    by (simp add: memVisor_def memPool_def)
  have hard: "VerifySingleTxnSoftHardConstraints (blockchain memVisor) db1 badTxn
          (Config_Distribution (Visor_Config memVisor))
          (UnconfirmedVerifyTxn (Visor_Config memVisor)) TxnSigned
       = Inl (ErrTxnViolatesHardConstraint ''unspent output does not exist'')"
    by code_simp
  have soft: "VerifySingleTxnSoftHardConstraints (blockchain memVisor) db1 bigTxn
          (Config_Distribution (Visor_Config memVisor))
          (UnconfirmedVerifyTxn (Visor_Config memVisor)) TxnSigned
      = Inl (ErrTxnViolatesSoftConstraint ''Transaction size bigger than max block size'')"
    by code_simp
  have ok: "VerifySingleTxnSoftHardConstraints (blockchain memVisor) db2 txn1
          (Config_Distribution (Visor_Config memVisor))
          (UnconfirmedVerifyTxn (Visor_Config memVisor)) TxnSigned
      = Inr (genesisBlock, [genesisUx])"
    by code_simp
  have k0: "(TxnHash memLib badTxn \<in> fst ` set (DB_pool db1)) = False"
    by code_simp
  have k1: "(TxnHash memLib bigTxn \<in> fst ` set (DB_pool db1)) = False"
    by code_simp
  have k2: "(TxnHash memLib txn1 \<in> fst ` set (DB_pool db2)) = True"
    by code_simp
  have c1: "InjectForeignTransaction memVisor badTxn db1
     = ((False, None, Some (ErrTxnViolatesHardConstraint ''unspent output does not exist'')), db1)"
    using C3_foreign_injection_outcomes [where vs = memVisor and lib = memLib and db = db1 and txn = badTxn
        and e = "ErrTxnViolatesHardConstraint ''unspent output does not exist''"
        and r = "Inl (ErrTxnViolatesHardConstraint ''unspent output does not exist'')"
        and known = False] pool hard k0
    by simp
  have c2: "\<exists>db'. InjectForeignTransaction memVisor bigTxn db1
            = ((False,
                Some (ErrTxnViolatesSoftConstraint ''Transaction size bigger than max block size''),
                None), db') \<and>
          pooledIn memLib bigTxn 0 db1 db'"
    using C3_foreign_injection_outcomes [where vs = memVisor and lib = memLib and db = db1 and txn = bigTxn
        and e = "ErrTxnViolatesSoftConstraint ''Transaction size bigger than max block size''"
        and r = "Inl (ErrTxnViolatesSoftConstraint ''Transaction size bigger than max block size'')"
        and known = False] pool soft k1
    by simp
  have c3: "\<exists>db'. InjectForeignTransaction memVisor txn1 db2 = ((True, None, None), db') \<and>
          pooledIn memLib txn1 1 db2 db'"
    using C3_foreign_injection_outcomes [where vs = memVisor and lib = memLib and db = db2 and txn = txn1
        and x = "(genesisBlock, [genesisUx])"
        and r = "Inr (genesisBlock, [genesisUx])"
        and known = True] pool ok k2
    by simp
  from c1 c2 c3 show ?thesis by blast
qed

section \<open>Properties of block creation\<close>

lemma filterTxns_all_violate:
  "list_all (\<lambda>txn. \<exists>e. VerifySingleTxnSoftHardConstraints (blockchain vs) tx txn
               (Config_Distribution (Visor_Config vs)) (CreateBlockVerifyTxn (Visor_Config vs))
               TxnSigned = Inl e \<and> isConstraintViolation e) txns
   \<Longrightarrow> filterTxns vs tx txns acc = Inr acc"
  by (induction txns arbitrary: acc) auto

text \<open>
  C6, as stated, fails: when the byte-budget truncation leaves no transaction,
  \<^verbatim>\<open>createBlockFromTxns\<close> does not return an error. On the in-memory node with a
  block budget of 50 bytes, \<open>txn1\<close> (78 bytes) passes the filter, the truncation leaves
  nothing, and the call panics.
\<close>

theorem C6_counterexample:
  "filterTxns memVisorSmallBlocks db1 [txn1] [] = Inr [txn1] \<and>
   TruncateBytesTo memLib [txn1] (MaxBlockTransactionsSize (Visor_Config memVisorSmallBlocks))
     = Inr [] \<and>
   createBlockFromTxns memLib memVisorSmallBlocks db1 [txn1] 2000
     = Panic ''TruncateBytesTo removed all transactions''"
  by code_simp

text \<open>
  C6, amended. \<^verbatim>\<open>createBlockFromTxns\<close> returns a NoTransactions-style error when the
  candidate set is empty ("No transactions") and when every candidate fails verification
  with a hard or soft constraint violation ("No transactions after filtering for
  constraint violations"). When the truncation to the byte budget leaves no transaction
  it returns no error: it panics with "TruncateBytesTo removed all transactions".
\<close>

theorem C6_no_transactions_outcomes:
  "(txns = [] \<longrightarrow> createBlockFromTxns lib vs tx txns when = Fail ErrNoTransactions) \<and>
   (txns \<noteq> [] \<and>
    list_all (\<lambda>txn. \<exists>e. VerifySingleTxnSoftHardConstraints (blockchain vs) tx txn
                (Config_Distribution (Visor_Config vs)) (CreateBlockVerifyTxn (Visor_Config vs))
                TxnSigned = Inl e \<and> isConstraintViolation e) txns
    \<longrightarrow> createBlockFromTxns lib vs tx txns when = Fail ErrNoTransactionsAfterFiltering) \<and>
   (filterTxns vs tx txns [] = Inr filteredTxns \<and> filteredTxns \<noteq> [] \<and>
    Head (blockchain vs) tx = Inr head \<and>
    SortTransactions lib filteredTxns
      (TransactionFee (blockchain vs) tx (Time (Block_Head (SignedBlock_Block head))))
      = Inr sortedTxns \<and>
    TruncateBytesTo lib sortedTxns (MaxBlockTransactionsSize (Visor_Config vs)) = Inr []
    \<longrightarrow> createBlockFromTxns lib vs tx txns when
          = Panic ''TruncateBytesTo removed all transactions'')"
proof (intro conjI impI)
  assume "txns = []"
  then show "createBlockFromTxns lib vs tx txns when = Fail ErrNoTransactions"
    by (simp add: createBlockFromTxns_def)
next
  assume a: "txns \<noteq> [] \<and>
    list_all (\<lambda>txn. \<exists>e. VerifySingleTxnSoftHardConstraints (blockchain vs) tx txn
                (Config_Distribution (Visor_Config vs)) (CreateBlockVerifyTxn (Visor_Config vs))
                TxnSigned = Inl e \<and> isConstraintViolation e) txns"
  then have "filterTxns vs tx txns [] = Inr []"
    by (simp add: filterTxns_all_violate)
  with a show "createBlockFromTxns lib vs tx txns when = Fail ErrNoTransactionsAfterFiltering"
    by (simp add: createBlockFromTxns_def)
next
  assume a: "filterTxns vs tx txns [] = Inr filteredTxns \<and> filteredTxns \<noteq> [] \<and>
    Head (blockchain vs) tx = Inr head \<and>
    SortTransactions lib filteredTxns
      (TransactionFee (blockchain vs) tx (Time (Block_Head (SignedBlock_Block head))))
      = Inr sortedTxns \<and>
    TruncateBytesTo lib sortedTxns (MaxBlockTransactionsSize (Visor_Config vs)) = Inr []"
  then have "txns \<noteq> []"
    by auto
  with a show "createBlockFromTxns lib vs tx txns when
      = Panic ''TruncateBytesTo removed all transactions''"
    by (simp add: createBlockFromTxns_def)
qed

text \<open>
  On the in-memory node: no candidate; one candidate that spends a missing output; one
  candidate larger than the block budget.
\<close>

theorem C6_witness:
  "createBlockFromTxns memLib memVisor db1 [] 2000 = Fail ErrNoTransactions \<and>
   createBlockFromTxns memLib memVisor db1 [badTxn] 2000 = Fail ErrNoTransactionsAfterFiltering \<and>
   createBlockFromTxns memLib memVisorSmallBlocks db1 [txn1] 2000
     = Panic ''TruncateBytesTo removed all transactions''"
proof -
  have "VerifySingleTxnSoftHardConstraints (blockchain memVisor) db1 badTxn
      (Config_Distribution (Visor_Config memVisor)) (CreateBlockVerifyTxn (Visor_Config memVisor))
      TxnSigned = Inl (ErrTxnViolatesHardConstraint ''unspent output does not exist'')"
    by code_simp
  then have v: "[badTxn] \<noteq> [] \<and>
    list_all (\<lambda>txn. \<exists>e. VerifySingleTxnSoftHardConstraints (blockchain memVisor) db1 txn
                (Config_Distribution (Visor_Config memVisor))
                (CreateBlockVerifyTxn (Visor_Config memVisor)) TxnSigned = Inl e \<and>
                isConstraintViolation e) [badTxn]"
    by simp
  have p: "filterTxns memVisorSmallBlocks db1 [txn1] [] = Inr [txn1] \<and> [txn1] \<noteq> [] \<and>
    Head (blockchain memVisorSmallBlocks) db1 = Inr genesisBlock \<and>
    SortTransactions memLib [txn1]
      (TransactionFee (blockchain memVisorSmallBlocks) db1
         (Time (Block_Head (SignedBlock_Block genesisBlock)))) = Inr [txn1] \<and>
    TruncateBytesTo memLib [txn1] (MaxBlockTransactionsSize (Visor_Config memVisorSmallBlocks))
      = Inr []"
    by code_simp
  from C6_no_transactions_outcomes [of "[]" memLib memVisor db1 2000]
    C6_no_transactions_outcomes [of "[badTxn]" memLib memVisor db1 2000] v
    C6_no_transactions_outcomes
      [of "[txn1]" memLib memVisorSmallBlocks db1 2000 "[txn1]" genesisBlock "[txn1]"] p
  show ?thesis
    by simp
qed

section \<open>Properties of the history rebuild\<close>

lemma unat_succ_less: "(i::64 word) < k \<Longrightarrow> unat (i + 1) = Suc (unat i)"
proof -
  assume "i < k"
  then have "unat i < unat k"
    by (simp add: word_less_nat_alt)
  moreover have "unat k < 2 ^ 64"
    using unsigned_less [of k] by simp
  ultimately have "unat i + 1 < 2 ^ 64"
    by simp
  then show ?thesis
    by (simp add: unat_word_ariths)
qed

text \<open>The loop asks for the blocks \<open>parsedBlockSeq + 1\<close>, \<open>parsedBlockSeq + 2\<close>, ... in order.\<close>

lemma parseLoop_parseBlocks:
  "parseLoop hist bc p height i tx = parseBlocks hist bc (requestedSeqs p height (unat i)) tx"
proof (induction hist bc p height i tx rule: parseLoop.induct)
  case (1 hist bc p height i tx)
  show ?case
  proof (cases "i < height - p")
    case True
    then have lt: "unat i < unat (height - p)"
      by (simp add: word_less_nat_alt)
    have suc: "unat (i + 1) = Suc (unat i)"
      using True by (rule unat_succ_less)
    have seqs: "requestedSeqs p height (unat i)
        = (p + i + 1) # requestedSeqs p height (unat (i + 1))"
      using lt by (simp add: requestedSeqs_def upt_conv_Cons suc)
    show ?thesis
      using True "1.IH"
      by (subst parseLoop.simps, subst seqs)
         (auto split: sum.splits option.splits prod.splits)
  next
    case False
    then have "\<not> unat i < unat (height - p)"
      by (simp add: word_less_nat_alt)
    then have "requestedSeqs p height (unat i) = []"
      by (simp add: requestedSeqs_def)
    with False show ?thesis
      by (subst parseLoop.simps) simp
  qed
qed

text \<open>
  After a reset, \<^verbatim>\<open>initHistory\<close> parses the blocks that follow the sequence number
  which the erased index reports as parsed, up to the head.
\<close>

lemma initHistory_reset:
  assumes "NeedsReset hist tx = Inr True"
    and "Erase hist tx = (None, tx1)"
    and "HeadSeq bc tx1 = Inr (headSeq, ok)"
    and "ParsedBlockSeq hist tx1 = Inr (p, ok')"
  shows "initHistory hist bc tx = parseBlocks hist bc (requestedSeqs p headSeq 0) tx1"
  using assms parseLoop_parseBlocks [of hist bc p headSeq 0 tx1]
  by (simp add: initHistory_def parseHistoryTo_def)

text \<open>
  Sequence number 0 is never asked for when the reported parsed sequence number does not
  exceed the head, in particular when it is 0.
\<close>

lemma zero_not_requested:
  assumes "p \<le> height"
  shows "0 \<notin> set (requestedSeqs p height 0)"
proof
  assume "0 \<in> set (requestedSeqs p height 0)"
  then obtain k where k: "k < unat (height - p)" and z: "p + word_of_nat k + 1 = 0"
    by (auto simp: requestedSeqs_def)
  have hp: "unat (height - p) = unat height - unat p"
    using assms by (simp add: unat_sub)
  have "unat height < 2 ^ 64"
    using unsigned_less [of height] by simp
  with k hp have "unat p + k + 1 < 2 ^ 64"
    by simp
  then have "unat (p + word_of_nat k + 1) = unat p + k + 1"
    by (simp add: unat_word_ariths unat_of_nat)
  with z show False
    by simp
qed

text \<open>
  C8. The claim: on startup, if the history index needs a reset, initialization erases
  it and parses every confirmed block from sequence 0 through the head, in order, so that
  every block of the chain has been parsed exactly once. The code does not do this. On
  the in-memory node with blocks 0, 1 and 2 and an index without bookkeeping, the erased
  index reports the parsed sequence number 0, the loop starts at \<open>0 + 0 + 1\<close>, and the
  rebuilt index holds blocks 1 and 2 only: the genesis block is never parsed.
\<close>

theorem C8_rebuild_skips_block_zero:
  "initHistory memHistory (memChain memLib) dbStale
     = (None, dbStale\<lparr>DB_history := [SignedBlock_Block block1, SignedBlock_Block block2],
                      DB_parsedSeq := Some 2\<rparr>) \<and>
   SignedBlock_Block genesisBlock
     \<notin> set (DB_history (snd (initHistory memHistory (memChain memLib) dbStale)))"
  by code_simp

section \<open>Properties of the address activity scan\<close>

text \<open>
  The address map has one entry per distinct address; its length is the length of the
  list exactly when the list has no duplicate, and then it maps each address to its
  index.
\<close>

lemma toSkyAddrs_length: "toSkyAddrs addrs = Inr skyAddrs \<Longrightarrow> length skyAddrs = length addrs"
proof (induction addrs arbitrary: skyAddrs)
  case Nil
  then show ?case by simp
next
  case (Cons a addrs)
  then show ?case by (cases a) (auto split: sum.splits)
qed

lemma buildAddrsMap_keys:
  "distinct (map fst m) \<Longrightarrow>
   distinct (map fst (buildAddrsMap i sky m)) \<and>
   fst ` set (buildAddrsMap i sky m) = fst ` set m \<union> set sky"
proof (induction sky arbitrary: i m)
  case Nil
  then show ?case by simp
next
  case (Cons a sky)
  have d: "distinct (map fst (AList.update a i m))"
    using Cons.prems by (rule distinct_update)
  have k: "fst ` set (AList.update a i m) = {a} \<union> fst ` set m"
    by (rule dom_update)
  from Cons.IH [OF d, of "Suc i"] k show ?case by auto
qed

lemma buildAddrsMap_length:
  "length (buildAddrsMap 0 sky []) = length sky \<longleftrightarrow> distinct sky"
proof -
  have d: "distinct (map fst (buildAddrsMap 0 sky []))"
    and s: "fst ` set (buildAddrsMap 0 sky []) = set sky"
    using buildAddrsMap_keys [of "[]" 0 sky] by simp_all
  have "length (map fst (buildAddrsMap 0 sky [])) = card (set (map fst (buildAddrsMap 0 sky [])))"
    using d by (simp only: distinct_card)
  then have l: "length (buildAddrsMap 0 sky []) = card (set sky)"
    using s by simp
  show ?thesis
  proof
    assume "length (buildAddrsMap 0 sky []) = length sky"
    with l have "card (set sky) = length sky" by simp
    then show "distinct sky" by (rule card_distinct)
  next
    assume "distinct sky"
    then have "card (set sky) = length sky" by (rule distinct_card)
    with l show "length (buildAddrsMap 0 sky []) = length sky" by simp
  qed
qed

lemma buildAddrsMap_notin:
  "a \<notin> set sky \<Longrightarrow> map_of (buildAddrsMap i sky m) a = map_of m a"
  by (induction sky arbitrary: i m) (auto simp: update_conv')

lemma buildAddrsMap_nth:
  "distinct sky \<Longrightarrow> j < length sky \<Longrightarrow> map_of (buildAddrsMap i sky m) (sky ! j) = Some (i + j)"
proof (induction sky arbitrary: i m j)
  case Nil
  then show ?case by simp
next
  case (Cons a sky)
  show ?case
  proof (cases j)
    case 0
    then show ?thesis using Cons.prems by (simp add: buildAddrsMap_notin update_conv')
  next
    case (Suc j')
    then show ?thesis using Cons.prems Cons.IH [of j' "Suc i" "AList.update a i m"] by simp
  qed
qed

lemma buildAddrsMap_Some_iff:
  assumes "distinct sky" and "i < length sky"
  shows "map_of (buildAddrsMap 0 sky []) a = Some i \<longleftrightarrow> a = sky ! i"
proof
  assume s: "map_of (buildAddrsMap 0 sky []) a = Some i"
  have "a \<in> set sky"
  proof (rule ccontr)
    assume "a \<notin> set sky"
    then have "map_of (buildAddrsMap 0 sky []) a = None"
      by (simp add: buildAddrsMap_notin)
    with s show False by simp
  qed
  then obtain j where j: "j < length sky" "sky ! j = a"
    by (auto simp: in_set_conv_nth)
  with assms(1) have "map_of (buildAddrsMap 0 sky []) a = Some j"
    using buildAddrsMap_nth [of sky j 0 "[]"] by simp
  with s j show "a = sky ! i" by simp
next
  assume "a = sky ! i"
  with assms show "map_of (buildAddrsMap 0 sky []) a = Some i"
    using buildAddrsMap_nth [of sky i 0 "[]"] by simp
qed


lemma scanHistory_result:
  "scanHistory hist tx sky n active = Inr active' \<Longrightarrow>
     (\<exists>i<n. AddressSeen hist tx (sky ! i) = Inr True \<and>
             (\<forall>j. i < j \<and> j < n \<longrightarrow> AddressSeen hist tx (sky ! j) = Inr False) \<and>
             active' = active[i := True]) \<or>
     ((\<forall>j<n. AddressSeen hist tx (sky ! j) = Inr False) \<and> active' = active)"
proof (induction n)
  case 0
  then show ?case by simp
next
  case (Suc n)
  show ?case
  proof (cases "AddressSeen hist tx (sky ! n)")
    case (Inl e)
    with Suc.prems show ?thesis by simp
  next
    case (Inr ok)
    show ?thesis
    proof (cases ok)
      case True
      with Inr Suc.prems have "active' = active[n := True]" by simp
      with Inr True show ?thesis by (intro disjI1 exI [of _ n]) auto
    next
      case False
      with Inr Suc.prems have "scanHistory hist tx sky n active = Inr active'" by simp
      from Suc.IH [OF this] show ?thesis
      proof
        assume "\<exists>i<n. AddressSeen hist tx (sky ! i) = Inr True \<and>
             (\<forall>j. i < j \<and> j < n \<longrightarrow> AddressSeen hist tx (sky ! j) = Inr False) \<and>
             active' = active[i := True]"
        then obtain i where i: "i < n" "AddressSeen hist tx (sky ! i) = Inr True"
          "\<forall>j. i < j \<and> j < n \<longrightarrow> AddressSeen hist tx (sky ! j) = Inr False"
          "active' = active[i := True]" by blast
        have "\<forall>j. i < j \<and> j < Suc n \<longrightarrow> AddressSeen hist tx (sky ! j) = Inr False"
          using i(3) Inr False by (auto simp: less_Suc_eq)
        with i show ?thesis by (intro disjI1 exI [of _ i]) auto
      next
        assume "(\<forall>j<n. AddressSeen hist tx (sky ! j) = Inr False) \<and> active' = active"
        with Inr False show ?thesis by (auto simp: less_Suc_eq)
      qed
    qed
  qed
qed

lemma scanHistory_total:
  "(\<forall>a. \<exists>b. AddressSeen hist tx a = Inr b) \<Longrightarrow>
   \<exists>active'. scanHistory hist tx sky n active = Inr active'"
proof (induction n)
  case 0
  then show ?case by simp
next
  case (Suc n)
  from Suc.prems obtain b where "AddressSeen hist tx (sky ! n) = Inr b" by blast
  with Suc show ?case by (cases b) auto
qed

lemma scanHistory_flags:
  assumes scan: "scanHistory hist tx sky (length sky) (replicate (length sky) False) = Inr active'"
    and i: "i < length sky"
  shows "length active' = length sky \<and>
         (active' ! i \<longleftrightarrow>
            AddressSeen hist tx (sky ! i) = Inr True \<and>
            (\<forall>j. i < j \<and> j < length sky \<longrightarrow> AddressSeen hist tx (sky ! j) = Inr False))"
  using scanHistory_result [OF scan]
proof
  assume "\<exists>k<length sky. AddressSeen hist tx (sky ! k) = Inr True \<and>
             (\<forall>j. k < j \<and> j < length sky \<longrightarrow> AddressSeen hist tx (sky ! j) = Inr False) \<and>
             active' = (replicate (length sky) False)[k := True]"
  then obtain k where k: "k < length sky" "AddressSeen hist tx (sky ! k) = Inr True"
    "\<forall>j. k < j \<and> j < length sky \<longrightarrow> AddressSeen hist tx (sky ! j) = Inr False"
    "active' = (replicate (length sky) False)[k := True]" by blast
  have flag: "active' ! i \<longleftrightarrow> i = k"
    using k(1,4) i by (auto simp: nth_list_update)
  have "(AddressSeen hist tx (sky ! i) = Inr True \<and>
         (\<forall>j. i < j \<and> j < length sky \<longrightarrow> AddressSeen hist tx (sky ! j) = Inr False))
        \<longleftrightarrow> i = k"
  proof
    assume a: "AddressSeen hist tx (sky ! i) = Inr True \<and>
         (\<forall>j. i < j \<and> j < length sky \<longrightarrow> AddressSeen hist tx (sky ! j) = Inr False)"
    show "i = k"
    proof (rule ccontr)
      assume "i \<noteq> k"
      then consider "i < k" | "k < i" by linarith
      then show False
      proof cases
        case 1
        with a k(1) have "AddressSeen hist tx (sky ! k) = Inr False" by blast
        with k(2) show False by simp
      next
        case 2
        with k(3) i have "AddressSeen hist tx (sky ! i) = Inr False" by blast
        with a show False by simp
      qed
    qed
  next
    assume "i = k"
    with k show "AddressSeen hist tx (sky ! i) = Inr True \<and>
         (\<forall>j. i < j \<and> j < length sky \<longrightarrow> AddressSeen hist tx (sky ! j) = Inr False)"
      by simp
  qed
  with flag k(4) show ?thesis by simp
next
  assume b: "(\<forall>j<length sky. AddressSeen hist tx (sky ! j) = Inr False) \<and>
     active' = replicate (length sky) False"
  with i have "AddressSeen hist tx (sky ! i) = Inr False" by blast
  with b i show ?thesis by simp
qed

lemma markOutputs_length: "length (markOutputs m outs active) = length active"
  by (induction outs arbitrary: active) (auto split: option.splits)

lemma markOutputs_nth:
  "i < length active \<Longrightarrow>
   markOutputs m outs active ! i \<longleftrightarrow>
     active ! i \<or> list_ex (\<lambda>out. map_of m (Out_Address out) = Some i) outs"
proof (induction outs arbitrary: active)
  case Nil
  then show ?case by simp
next
  case (Cons out outs)
  show ?case
  proof (cases "map_of m (Out_Address out)")
    case None
    with Cons show ?thesis by simp
  next
    case (Some k)
    show ?thesis
    proof (cases "k < length active")
      case True
      with Some Cons.IH [of "active[k := True]"] Cons.prems show ?thesis
        by (auto simp: nth_list_update)
    next
      case False
      then have "active[k := True] = active" by (simp add: list_update_beyond)
      moreover from False Cons.prems have "k \<noteq> i" by auto
      ultimately show ?thesis
        using Some Cons.IH [of active] Cons.prems by auto
    qed
  qed
qed

lemma markPool_length: "length (markPool m pool active) = length active"
  by (induction pool arbitrary: active) (auto simp: markOutputs_length)

lemma markPool_nth:
  "i < length active \<Longrightarrow>
   markPool m pool active ! i \<longleftrightarrow>
     active ! i \<or>
     list_ex (\<lambda>(h, ut). list_ex (\<lambda>out. map_of m (Out_Address out) = Some i)
                (Out (UT_Transaction ut))) pool"
proof (induction pool arbitrary: active)
  case Nil
  then show ?case by simp
next
  case (Cons p pool)
  obtain h ut where p: "p = (h, ut)" by (cases p)
  from Cons.IH [of "markOutputs m (Out (UT_Transaction ut)) active"] Cons.prems p
  show ?case by (simp add: markOutputs_length markOutputs_nth)
qed

lemma inPool_addrsMap:
  assumes "distinct sky" and "i < length sky"
  shows "list_ex (\<lambda>(h, ut). list_ex (\<lambda>out. map_of (buildAddrsMap 0 sky []) (Out_Address out) = Some i)
                (Out (UT_Transaction ut))) pool
         \<longleftrightarrow> inPool pool (sky ! i)"
  using assms by (simp add: inPool_def buildAddrsMap_Some_iff)

text \<open>
  C7, as stated, fails: a flag is not true for every address that appears in the
  confirmed history. On the in-memory node after \<open>block1\<close> both addresses appear in the
  history and the pool is empty; the scan stops at the last address, and the flag of the
  first address stays false.
\<close>

theorem C7_counterexample:
  "AddressesActivity (newTransactionsFinder memVisor)
     [SkycoinAddress addrA, SkycoinAddress addrB] db3 = Inr [False, True] \<and>
   AddressSeen (history memVisor) db3 addrA = Inr True"
  by code_simp

text \<open>
  C7, amended. For a list of addresses of the recognized kind: if the list has a
  duplicate, \<^verbatim>\<open>AddressesActivity\<close> returns an error. Whenever it returns flags, there
  is exactly one per input address, in the order of the input, and the flag of an address
  is true if and only if the address is the last one of the list that the history has
  seen (the history scan runs from the last address to the first and stops at the first
  hit), or the address is the address of an output of a pooled transaction. It returns
  flags whenever the list has no duplicate and the lookups of the history and of the pool
  do not fail.
\<close>

theorem C7_addresses_activity:
  assumes conv: "toSkyAddrs addrs = Inr skyAddrs"
  shows
    "(\<not> distinct skyAddrs \<longrightarrow> AddressesActivity tf addrs db = Inl ErrDuplicateAddresses) \<and>
     (AddressesActivity tf addrs db = Inr active \<and> ForEach (tf_unconfirmed tf) db = Inr pool
      \<longrightarrow> length active = length addrs \<and>
          (\<forall>i<length addrs.
             active ! i \<longleftrightarrow>
               (AddressSeen (tf_history tf) db (skyAddrs ! i) = Inr True \<and>
                (\<forall>j. i < j \<and> j < length addrs
                   \<longrightarrow> AddressSeen (tf_history tf) db (skyAddrs ! j) = Inr False)) \<or>
               inPool pool (skyAddrs ! i))) \<and>
     (distinct skyAddrs \<and> (\<forall>a. \<exists>b. AddressSeen (tf_history tf) db a = Inr b) \<and>
      ForEach (tf_unconfirmed tf) db = Inr pool
      \<longrightarrow> (\<exists>active. AddressesActivity tf addrs db = Inr active))"
proof -
  have len: "length skyAddrs = length addrs"
    using conv by (rule toSkyAddrs_length)
  have dup: "AddressesActivity tf addrs db = Inl ErrDuplicateAddresses"
    if nd: "\<not> distinct skyAddrs"
  proof -
    from nd have "skyAddrs \<noteq> []" by auto
    with len have ne: "addrs \<noteq> []" by auto
    from nd have "length (buildAddrsMap 0 skyAddrs []) \<noteq> length addrs"
      using buildAddrsMap_length [of skyAddrs] len by simp
    with ne conv show "AddressesActivity tf addrs db = Inl ErrDuplicateAddresses"
      by (simp add: AddressesActivity_def Let_def)
  qed
  have flags: "length active = length addrs \<and>
          (\<forall>i<length addrs.
             active ! i \<longleftrightarrow>
               (AddressSeen (tf_history tf) db (skyAddrs ! i) = Inr True \<and>
                (\<forall>j. i < j \<and> j < length addrs
                   \<longrightarrow> AddressSeen (tf_history tf) db (skyAddrs ! j) = Inr False)) \<or>
               inPool pool (skyAddrs ! i))"
    if a: "AddressesActivity tf addrs db = Inr active \<and> ForEach (tf_unconfirmed tf) db = Inr pool"
    proof (cases "addrs = []")
      case True
      with a show ?thesis by (simp add: AddressesActivity_def)
    next
      case False
      have d: "distinct skyAddrs"
      proof (rule ccontr)
        assume "\<not> distinct skyAddrs"
        then have "length (buildAddrsMap 0 skyAddrs []) \<noteq> length addrs"
          using buildAddrsMap_length [of skyAddrs] len by simp
        with False conv a show False
          by (simp add: AddressesActivity_def Let_def)
      qed
      then have l: "length (buildAddrsMap 0 skyAddrs []) = length addrs"
        using buildAddrsMap_length [of skyAddrs] len by simp
      from False conv a l obtain active' where
        scan: "scanHistory (tf_history tf) db skyAddrs (length skyAddrs)
                 (replicate (length skyAddrs) False) = Inr active'"
        and act: "active = markPool (buildAddrsMap 0 skyAddrs []) pool active'"
        by (auto simp: AddressesActivity_def Let_def len split: sum.splits)
      have la: "length active' = length skyAddrs"
      proof (cases "skyAddrs")
        case Nil
        with scan show ?thesis by simp
      next
        case (Cons x xs)
        then have "0 < length skyAddrs" by simp
        from scanHistory_flags [OF scan this] show ?thesis by simp
      qed
      have "\<forall>i<length addrs.
             active ! i \<longleftrightarrow>
               (AddressSeen (tf_history tf) db (skyAddrs ! i) = Inr True \<and>
                (\<forall>j. i < j \<and> j < length addrs
                   \<longrightarrow> AddressSeen (tf_history tf) db (skyAddrs ! j) = Inr False)) \<or>
               inPool pool (skyAddrs ! i)"
      proof (intro allI impI)
        fix i assume i: "i < length addrs"
        then have i': "i < length skyAddrs" using len by simp
        from scanHistory_flags [OF scan i']
        have f: "active' ! i \<longleftrightarrow>
            AddressSeen (tf_history tf) db (skyAddrs ! i) = Inr True \<and>
            (\<forall>j. i < j \<and> j < length addrs
               \<longrightarrow> AddressSeen (tf_history tf) db (skyAddrs ! j) = Inr False)"
          using len by simp
        have "active ! i \<longleftrightarrow> active' ! i \<or> inPool pool (skyAddrs ! i)"
          using act markPool_nth [of i active' "buildAddrsMap 0 skyAddrs []" pool]
            inPool_addrsMap [OF d i', of pool] i' la
          by simp
        with f show "active ! i \<longleftrightarrow>
               (AddressSeen (tf_history tf) db (skyAddrs ! i) = Inr True \<and>
                (\<forall>j. i < j \<and> j < length addrs
                   \<longrightarrow> AddressSeen (tf_history tf) db (skyAddrs ! j) = Inr False)) \<or>
               inPool pool (skyAddrs ! i)"
          by simp
      qed
      moreover have "length active = length addrs"
        using act la len by (simp add: markPool_length)
      ultimately show ?thesis by simp
    qed
  have total: "\<exists>active. AddressesActivity tf addrs db = Inr active"
    if a: "distinct skyAddrs \<and> (\<forall>a. \<exists>b. AddressSeen (tf_history tf) db a = Inr b) \<and>
      ForEach (tf_unconfirmed tf) db = Inr pool"
  proof -
    from a have l: "length (buildAddrsMap 0 skyAddrs []) = length addrs"
      using buildAddrsMap_length [of skyAddrs] len by simp
    from a obtain active' where
      "scanHistory (tf_history tf) db skyAddrs (length skyAddrs)
         (replicate (length addrs) False) = Inr active'"
      using scanHistory_total [of "tf_history tf" db skyAddrs "length skyAddrs"
          "replicate (length addrs) False"] by blast
    with a conv l show "\<exists>active. AddressesActivity tf addrs db = Inr active"
      by (simp add: AddressesActivity_def Let_def)
  qed
  from dup flags total show ?thesis
    by blast
qed

text \<open>
  On the in-memory node: a list with a duplicate is refused; with \<open>txn1\<close> pooled the
  first address is the last one seen in the history and the second is in the pool.
\<close>

theorem C7_witness:
  "AddressesActivity (newTransactionsFinder memVisor)
     [SkycoinAddress addrA, SkycoinAddress addrA] db3 = Inl ErrDuplicateAddresses \<and>
   AddressesActivity (newTransactionsFinder memVisor)
     [SkycoinAddress addrA, SkycoinAddress addrB] db2 = Inr [True, True] \<and>
   length [True, True] = length [SkycoinAddress addrA, SkycoinAddress addrB] \<and>
   AddressSeen (tf_history (newTransactionsFinder memVisor)) db2 addrA = Inr True \<and>
   AddressSeen (tf_history (newTransactionsFinder memVisor)) db2 addrB = Inr False \<and>
   inPool (DB_pool db2) addrB \<and>
   (\<exists>active. AddressesActivity (newTransactionsFinder memVisor)
      [SkycoinAddress addrA, SkycoinAddress addrB] db3 = Inr active)"
proof -
  have c1: "toSkyAddrs [SkycoinAddress addrA, SkycoinAddress addrA] = Inr [addrA, addrA]"
    by simp
  have c2: "toSkyAddrs [SkycoinAddress addrA, SkycoinAddress addrB] = Inr [addrA, addrB]"
    by simp
  have nd: "\<not> distinct [addrA, addrA]"
    by simp
  have d: "distinct [addrA, addrB]"
    by (simp add: addrA_def addrB_def)
  have run: "AddressesActivity (newTransactionsFinder memVisor)
      [SkycoinAddress addrA, SkycoinAddress addrB] db2 = Inr [True, True]"
    by code_simp
  have pool: "ForEach (tf_unconfirmed (newTransactionsFinder memVisor)) db2 = Inr (DB_pool db2)"
    by (simp add: newTransactionsFinder_def memVisor_def memPool_def)
  have pool3: "ForEach (tf_unconfirmed (newTransactionsFinder memVisor)) db3 = Inr (DB_pool db3)"
    by (simp add: newTransactionsFinder_def memVisor_def memPool_def)
  have seen: "\<forall>a. \<exists>b. AddressSeen (tf_history (newTransactionsFinder memVisor)) db3 a = Inr b"
    by (simp add: newTransactionsFinder_def memVisor_def memHistory_def)
  have sA: "AddressSeen (tf_history (newTransactionsFinder memVisor)) db2 addrA = Inr True"
    by code_simp
  have sB: "AddressSeen (tf_history (newTransactionsFinder memVisor)) db2 addrB = Inr False"
    by code_simp
  have pB: "inPool (DB_pool db2) addrB"
    by code_simp
  from C7_addresses_activity [OF c1, of "newTransactionsFinder memVisor" db3] nd
  have w1: "AddressesActivity (newTransactionsFinder memVisor)
      [SkycoinAddress addrA, SkycoinAddress addrA] db3 = Inl ErrDuplicateAddresses"
    by simp
  from C7_addresses_activity [OF c2, of "newTransactionsFinder memVisor" db2 "[True, True]" "DB_pool db2"]
    run pool
  have w2: "length [True, True] = length [SkycoinAddress addrA, SkycoinAddress addrB]"
    by blast
  from C7_addresses_activity [OF c2, of "newTransactionsFinder memVisor" db3 _ "DB_pool db3"] d pool3 seen
  have w3: "\<exists>active. AddressesActivity (newTransactionsFinder memVisor)
      [SkycoinAddress addrA, SkycoinAddress addrB] db3 = Inr active"
    by blast
  from w1 run w2 sA sB pB w3 show ?thesis
    by blast
qed

section \<open>Properties of balances\<close>

lemma UxArray_Sub_Nil: "UxArray_Sub lib uxs [] = uxs"
  by (simp add: UxArray_Sub_def)

lemma UxArray_Add_Nil: "UxArray_Add lib uxs [] = uxs"
  by (simp add: UxArray_Add_def)

lemma balanceOf_no_pool:
  "balanceOf lib headTime uxs [] [] = Inr bp \<Longrightarrow> Predicted bp = Confirmed bp"
  by (auto simp: balanceOf_def UxArray_Sub_Nil UxArray_Add_Nil Let_def
      split: sum.splits if_splits)

lemma balanceLoop_result:
  "balanceLoop lib headTime auxs spendUxs recvUxs addrs bps = Inr res \<Longrightarrow>
   \<exists>rs. res = bps @ rs \<and> list_all2 (pairFor lib headTime auxs spendUxs recvUxs) addrs rs"
proof (induction addrs arbitrary: bps)
  case Nil
  then show ?case by simp
next
  case (Cons a addrs)
  show ?case
  proof (cases "auxs a")
    case None
    with Cons.prems have "balanceLoop lib headTime auxs spendUxs recvUxs addrs
        (bps @ [zeroBalancePair]) = Inr res"
      by simp
    from Cons.IH [OF this] obtain rs where
      rs: "res = (bps @ [zeroBalancePair]) @ rs"
        "list_all2 (pairFor lib headTime auxs spendUxs recvUxs) addrs rs"
      by blast
    have "pairFor lib headTime auxs spendUxs recvUxs a zeroBalancePair"
      using None by (simp add: pairFor_def)
    with rs have "res = bps @ (zeroBalancePair # rs) \<and>
        list_all2 (pairFor lib headTime auxs spendUxs recvUxs) (a # addrs) (zeroBalancePair # rs)"
      by simp
    then show ?thesis by blast
  next
    case (Some uxs)
    with Cons.prems obtain bp where
      b: "balanceOf lib headTime uxs (lookupUxs spendUxs a) (lookupUxs recvUxs a) = Inr bp"
      and r: "balanceLoop lib headTime auxs spendUxs recvUxs addrs (bps @ [bp]) = Inr res"
      by (auto split: sum.splits)
    from Cons.IH [OF r] obtain rs where
      rs: "res = (bps @ [bp]) @ rs"
        "list_all2 (pairFor lib headTime auxs spendUxs recvUxs) addrs rs"
      by blast
    have "pairFor lib headTime auxs spendUxs recvUxs a bp"
      using Some b by (simp add: pairFor_def)
    with rs have "res = bps @ (bp # rs) \<and>
        list_all2 (pairFor lib headTime auxs spendUxs recvUxs) (a # addrs) (bp # rs)"
      by simp
    then show ?thesis by blast
  qed
qed

lemma balanceLoop_fail:
  assumes "a \<in> set addrs" and "auxs a = Some uxs"
    and "balanceOf lib headTime uxs (lookupUxs spendUxs a) (lookupUxs recvUxs a) = Inl e"
  shows "\<exists>e'. balanceLoop lib headTime auxs spendUxs recvUxs addrs bps = Inl e'"
proof (rule ccontr)
  assume "\<not> (\<exists>e'. balanceLoop lib headTime auxs spendUxs recvUxs addrs bps = Inl e')"
  then obtain res where "balanceLoop lib headTime auxs spendUxs recvUxs addrs bps = Inr res"
    by (cases "balanceLoop lib headTime auxs spendUxs recvUxs addrs bps") auto
  from balanceLoop_result [OF this] obtain rs where
    "list_all2 (pairFor lib headTime auxs spendUxs recvUxs) addrs rs"
    by blast
  with assms(1) obtain bp where "pairFor lib headTime auxs spendUxs recvUxs a bp"
    by (auto simp: list_all2_conv_all_nth in_set_conv_nth)
  with assms(2,3) show False
    by (simp add: pairFor_def)
qed

lemma GetBalanceOfAddresses_result:
  assumes "GetBalanceOfAddresses lib vs addrs db = Inr bps" and "addrs \<noteq> []"
  shows "\<exists>head recvUxs uxa auxs.
           balanceView lib vs addrs db = Inr (head, recvUxs, uxa, auxs) \<and>
           list_all2 (pairFor lib (Time (Block_Head (SignedBlock_Block head))) auxs
                        (buildSpendUxs addrs uxa Map.empty) recvUxs) addrs bps"
proof -
  from assms obtain head recvUxs uxa auxs where
    v: "balanceView lib vs addrs db = Inr (head, recvUxs, uxa, auxs)"
    and l: "balanceLoop lib (Time (Block_Head (SignedBlock_Block head))) auxs
               (buildSpendUxs addrs uxa Map.empty) recvUxs addrs [] = Inr bps"
    by (auto simp: GetBalanceOfAddresses_def split: sum.splits prod.splits)
  from balanceLoop_result [OF l] v show ?thesis
    by auto
qed


lemma balanceView_headTime:
  assumes "balanceView lib vs addrs db = Inr (head, recvUxs, uxa, auxs)"
  shows "headTimeOf vs db = Time (Block_Head (SignedBlock_Block head))"
  using assms
  by (auto simp: balanceView_def headTimeOf_def split: sum.splits)

lemma balanceView_empty_pool:
  assumes "AllRawTransactions (unconfirmed vs) db = Inr []"
    and "balanceView lib vs addrs db = Inr (head, recvUxs, uxa, auxs)"
  shows "recvUxs = Map.empty \<and> uxa = []"
  using assms
  by (auto simp: balanceView_def txnOutputsForAddrs_def split: sum.splits)

lemma pairFor_no_pool:
  "pairFor lib headTime auxs Map.empty Map.empty a bp \<Longrightarrow> Predicted bp = Confirmed bp"
  by (auto simp: pairFor_def lookupUxs_def zeroBalancePair_def
      dest: balanceOf_no_pool split: option.splits)

text \<open>
  C9. For every address queried by \<^verbatim>\<open>GetBalanceOfAddresses\<close>, when the unconfirmed
  pool is empty the returned predicted balance (coins and hours) equals the returned
  confirmed balance exactly; there is one pair per queried address.
\<close>

theorem C9_empty_pool_predicted_is_confirmed:
  assumes pool: "AllRawTransactions (unconfirmed vs) db = Inr []"
    and res: "GetBalanceOfAddresses lib vs addrs db = Inr bps"
  shows "length bps = length addrs \<and> list_all (\<lambda>bp. Predicted bp = Confirmed bp) bps"
proof (cases "addrs = []")
  case True
  with res show ?thesis by (simp add: GetBalanceOfAddresses_def)
next
  case False
  from GetBalanceOfAddresses_result [OF res False] obtain head recvUxs uxa auxs where
    v: "balanceView lib vs addrs db = Inr (head, recvUxs, uxa, auxs)"
    and l: "list_all2 (pairFor lib (Time (Block_Head (SignedBlock_Block head))) auxs
                        (buildSpendUxs addrs uxa Map.empty) recvUxs) addrs bps"
    by blast
  from balanceView_empty_pool [OF pool v] have e: "recvUxs = Map.empty" "uxa = []"
    by simp_all
  with l have l': "list_all2 (pairFor lib (Time (Block_Head (SignedBlock_Block head))) auxs
                        Map.empty Map.empty) addrs bps"
    by simp
  then have "length bps = length addrs"
    by (simp add: list_all2_lengthD)
  moreover have "\<forall>k<length bps. pairFor lib (Time (Block_Head (SignedBlock_Block head))) auxs
      Map.empty Map.empty (addrs ! k) (bps ! k)"
    using l' by (simp add: list_all2_conv_all_nth)
  then have "\<forall>k<length bps. Predicted (bps ! k) = Confirmed (bps ! k)"
    using pairFor_no_pool by blast
  then have "list_all (\<lambda>bp. Predicted bp = Confirmed bp) bps"
    by (simp add: list_all_length)
  ultimately show ?thesis by simp
qed

text \<open>On the in-memory node after the genesis block, with an empty pool.\<close>

theorem C9_witness:
  "AllRawTransactions (unconfirmed memVisor) db1 = Inr [] \<and>
   GetBalanceOfAddresses memLib memVisor [addrA, addrB] db1
     = Inr [\<lparr>Confirmed = \<lparr>Coins = 100000000, Hours = 10\<rparr>,
             Predicted = \<lparr>Coins = 100000000, Hours = 10\<rparr>\<rparr>,
           \<lparr>Confirmed = \<lparr>Coins = 0, Hours = 0\<rparr>,
             Predicted = \<lparr>Coins = 0, Hours = 0\<rparr>\<rparr>] \<and>
   list_all (\<lambda>bp. Predicted bp = Confirmed bp)
     [\<lparr>Confirmed = \<lparr>Coins = 100000000, Hours = 10\<rparr>,
       Predicted = \<lparr>Coins = 100000000, Hours = 10\<rparr>\<rparr>,
      \<lparr>Confirmed = \<lparr>Coins = 0, Hours = 0\<rparr>,
       Predicted = \<lparr>Coins = 0, Hours = 0\<rparr>\<rparr>]"
proof -
  have pool: "AllRawTransactions (unconfirmed memVisor) db1 = Inr []"
    by code_simp
  have run: "GetBalanceOfAddresses memLib memVisor [addrA, addrB] db1
     = Inr [\<lparr>Confirmed = \<lparr>Coins = 100000000, Hours = 10\<rparr>,
             Predicted = \<lparr>Coins = 100000000, Hours = 10\<rparr>\<rparr>,
           \<lparr>Confirmed = \<lparr>Coins = 0, Hours = 0\<rparr>,
             Predicted = \<lparr>Coins = 0, Hours = 0\<rparr>\<rparr>]"
    by code_simp
  from pool run C9_empty_pool_predicted_is_confirmed [OF pool run] show ?thesis
    by simp
qed





end
